theory Spec2Isabelle
  imports Complex_Main "HOL-Library.AList"
begin

section \<open>The variation operator of map-elites\<close>

text \<open>
  A shallow embedding of \<^verbatim>\<open>src/map_elites/variation.py\<close>: the class
  \<^verbatim>\<open>VariationOperator\<close>, its event handlers, the round \<^verbatim>\<open>evolve_batch\<close>, the
  pipeline \<^verbatim>\<open>evo\<close> and the two genetic operators the class defines.

  Conventions.
  \<^item> Python integers are \<^typ>\<open>int\<close>; policy keys (indices into the pool) are \<^typ>\<open>nat\<close>.
  \<^item> Tensor elements and Python floats are \<^typ>\<open>real\<close>: the code computes in
    float32 and float64, and the rounding of floating point arithmetic is not modelled.
  \<^item> Random draws are inputs of the function that makes them, so every function of the
    model is deterministic in its arguments. A normal draw of standard deviation
    \<open>std\<close> is \<open>std\<close> times a standard normal sample, and the sample is the input.
  \<^item> An exception is a value \<open>Inl e\<close> of \<open>py_error + 'a\<close>.
  \<^item> The logger and the signals are lists the handlers append to.
\<close>

subsection \<open>Errors, log records, signals\<close>

datatype py_error =
    AttributeError string
  | KeyError string
  | IndexError
  | ValueError
  | RuntimeError

datatype log_level = DEBUG | WARN

datatype log_msg =
    Not_using_crossover
  | Not_using_mutation
  | Received_agents nat nat int
  | Initializing_map
  | Mutating_from_map
  | Not_enough_free nat int
  | Mutated_actors

type_synonym log_entry = "log_level \<times> log_msg"

datatype signal = To_evaluate nat bool | Stop nat

subsection \<open>Tensors\<close>

text \<open>
  A tensor is its shape and its elements in row-major order. The policy model of
  \<^verbatim>\<open>src/testing/jit_testing.py\<close> has parameters of rank 1 and 2; the batched view
  stacks them to rank 2 and 3.
\<close>

record tensor =
  shape :: "nat list"
  data :: "real list"

definition numel :: "tensor \<Rightarrow> nat" where
  "numel t = length (data t)"

definition wf_tensor :: "tensor \<Rightarrow> bool" where
  "wf_tensor t = (length (data t) = prod_list (shape t))"

text \<open>
  \<^verbatim>\<open>max_gene\<close> and \<^verbatim>\<open>min_gene\<close> default to \<^verbatim>\<open>False\<close> and are numbers when
  configured. \<open>truthy\<close> is Python's truth value of such an object, \<open>as_number\<close> the
  number torch reads it as (\<^verbatim>\<open>False\<close> is the scalar 0).
\<close>

datatype gene_bound = Py_False | Py_float real

fun truthy :: "gene_bound \<Rightarrow> bool" where
  "truthy Py_False = False"
| "truthy (Py_float r) = (r \<noteq> 0)"

fun as_number :: "gene_bound \<Rightarrow> real" where
  "as_number Py_False = 0"
| "as_number (Py_float r) = r"

text \<open>\<^verbatim>\<open>torch.clamp(z, lo, hi)\<close> is \<open>min (max z lo) hi\<close> on every element.\<close>

definition torch_clamp :: "tensor \<Rightarrow> gene_bound \<Rightarrow> gene_bound \<Rightarrow> tensor" where
  "torch_clamp z lo hi =
     z\<lparr>data := map (\<lambda>v. min (max v (as_number lo)) (as_number hi)) (data z)\<rparr>"

subsection \<open>Configuration and the operator's fields\<close>

record config =
  cfg_crossover_op :: string
  cfg_mutation_op :: string
  random_init_batch :: int
  eval_batch_size :: int
  proportion_evo :: real
  mutations_per_policy :: int
  random_init :: int
  num_agents :: int

text \<open>The keyword arguments of \<^verbatim>\<open>__init__\<close> that become fields (lines 57 to 66).\<close>

record hyperparams =
  max_gene :: gene_bound
  min_gene :: gene_bound
  mutation_rate :: real
  crossover_rate :: real
  eta_m :: real
  eta_c :: real
  sigma :: real
  max_uniform :: real
  iso_sigma :: real
  line_sigma :: real

definition default_hyperparams :: hyperparams where
  "default_hyperparams =
     \<lparr>max_gene = Py_False, min_gene = Py_False, mutation_rate = 5 / 100,
      crossover_rate = 75 / 100, eta_m = 5, eta_c = 10, sigma = 1 / 10,
      max_uniform = 1 / 10, iso_sigma = 5 / 1000, line_sigma = 5 / 100\<rparr>"

text \<open>
  The genetic operators that are methods of the class: \<^verbatim>\<open>iso_dd\<close> (line 212) and
  \<^verbatim>\<open>gaussian_mutation\<close> (line 236). No other operator is defined in the file.
\<close>

datatype bound_method = M_iso_dd | M_gaussian_mutation

text \<open>
  \<^verbatim>\<open>getattr(self, name)\<close> for the five names \<^verbatim>\<open>__init__\<close> looks up: a name the
  class does not define raises \<^verbatim>\<open>AttributeError\<close>.
\<close>

definition getattr_op :: "string \<Rightarrow> py_error + bound_method" where
  "getattr_op name =
     (if name = ''iso_dd'' then Inr M_iso_dd
      else if name = ''gaussian_mutation'' then Inr M_gaussian_mutation
      else Inl (AttributeError name))"

text \<open>
  The fields of a \<^verbatim>\<open>VariationOperator\<close>. \<open>crossover_op = None\<close> is the sentinel
  \<^verbatim>\<open>False\<close> of a disabled stage. \<open>all_actors\<close> is column 0 of the pool,
  \<open>eval_cache\<close> has one row of slots per key, \<open>elites_map\<close> maps a niche to the key
  of its elite and its fitness, \<open>eval_in_queue\<close> is the queue's content, oldest
  first. \<open>signals\<close> and \<open>log\<close> record what was emitted and logged. A policy is a
  value of \<open>'p\<close>, its parameter state.
\<close>

record 'p variation_operator =
  cfg :: config
  object_id :: nat
  all_actors :: "'p list"
  elites_map :: "(nat \<times> nat \<times> real) list"
  eval_cache :: "'p list list"
  eval_in_queue :: "nat list list"
  free_policy_keys :: "nat set"
  init_mode :: bool
  queued_for_eval :: int
  crossover_op :: "bound_method option"
  mutation_op :: "bound_method option"
  hp :: hyperparams
  signals :: "signal list"
  log :: "log_entry list"

subsection \<open>Construction\<close>

text \<open>
  Lines 46 to 56: a name in the list is looked up with \<^verbatim>\<open>getattr\<close>, any other name
  disables the stage with a warning. The result is the field and the warnings logged.
\<close>

definition resolve_op ::
  "string list \<Rightarrow> log_msg \<Rightarrow> string \<Rightarrow> py_error + (bound_method option \<times> log_entry list)" where
  "resolve_op recognized msg name =
     (if name \<in> set recognized then
        (case getattr_op name of Inl e \<Rightarrow> Inl e | Inr m \<Rightarrow> Inr (Some m, []))
      else Inr (None, [(WARN, msg)]))"

definition VariationOperator_init ::
  "config \<Rightarrow> 'p list \<Rightarrow> (nat \<times> nat \<times> real) list \<Rightarrow> 'p list list \<Rightarrow> nat list list \<Rightarrow>
   nat set \<Rightarrow> nat \<Rightarrow> hyperparams \<Rightarrow> py_error + 'p variation_operator" where
  "VariationOperator_init c actors elites cache queue free oid h =
     (case resolve_op [''sbx'', ''iso_dd''] Not_using_crossover (cfg_crossover_op c) of
        Inl e \<Rightarrow> Inl e
      | Inr (cop, log1) \<Rightarrow>
          (case resolve_op [''polynomial_mutation'', ''gaussian_mutation'', ''uniform_mutation'']
                  Not_using_mutation (cfg_mutation_op c) of
             Inl e \<Rightarrow> Inl e
           | Inr (mop, log2) \<Rightarrow>
               Inr \<lparr>cfg = c, object_id = oid, all_actors = actors, elites_map = elites,
                    eval_cache = cache, eval_in_queue = queue, free_policy_keys = free,
                    init_mode = True, queued_for_eval = 0,
                    crossover_op = cop, mutation_op = mop, hp = h,
                    signals = [], log = log1 @ log2\<rparr>))"

subsection \<open>Event handlers\<close>

text \<open>
  \<^verbatim>\<open>on_eval_results\<close> (lines 85 to 88) reads only \<^verbatim>\<open>oid\<close> and \<^verbatim>\<open>agents\<close> of its
  six arguments.
\<close>

definition on_eval_results :: "nat \<Rightarrow> 'a list \<Rightarrow> 'p variation_operator \<Rightarrow> 'p variation_operator" where
  "on_eval_results oid agents s =
     (let num_eval = int (length agents);
          q = queued_for_eval s - num_eval
      in s\<lparr>queued_for_eval := q,
            log := log s @ [(DEBUG, Received_agents (length agents) oid q)]\<rparr>)"

definition on_release :: "nat list \<Rightarrow> 'p variation_operator \<Rightarrow> 'p variation_operator" where
  "on_release mapped_actors_keys s =
     s\<lparr>free_policy_keys := free_policy_keys s \<union> set mapped_actors_keys\<rparr>"

subsection \<open>Genetic operators\<close>

text \<open>
  \<^verbatim>\<open>t.normal_(mean, std)\<close> fills the \<open>n\<close> elements of a tensor with
  \<open>mean + std * e\<close>, and \<^verbatim>\<open>np.random.normal(loc, scale)\<close> returns
  \<open>loc + scale * e\<close>, for standard normal samples \<open>e\<close>. The samples are the
  arguments \<open>eps\<close> and \<open>e\<close>. Both libraries reject a negative standard deviation;
  the standard deviations are taken not negative, and the model does not represent
  that exception.
\<close>

definition torch_normal :: "real \<Rightarrow> real \<Rightarrow> (nat \<Rightarrow> real) \<Rightarrow> nat \<Rightarrow> real list" where
  "torch_normal mean std eps n = map (\<lambda>i. mean + std * eps i) [0..<n]"

definition np_random_normal :: "real \<Rightarrow> real \<Rightarrow> real \<Rightarrow> real" where
  "np_random_normal loc scale e = loc + scale * e"

text \<open>
  \<^verbatim>\<open>iso_dd\<close> (lines 212 to 229). \<open>eps_a\<close> holds the standard normal samples of
  the draw \<^verbatim>\<open>torch.zeros_like(x).normal_(mean=0, std=self.iso_sigma)\<close>, which has the
  shape of \<open>x\<close>; \<open>eps_b\<close> is the standard normal sample of the one draw
  \<^verbatim>\<open>np.random.normal(0, self.line_sigma)\<close>. Parents of different shapes are outside
  the model (torch broadcasts them when it can and raises otherwise): the model answers
  \<open>RuntimeError\<close>.
\<close>

definition iso_dd ::
  "hyperparams \<Rightarrow> (nat \<Rightarrow> real) \<Rightarrow> real \<Rightarrow> tensor \<Rightarrow> tensor \<Rightarrow> py_error + tensor" where
  "iso_dd h eps_a eps_b x y =
     (if shape x = shape y then
        (let a = torch_normal 0 (iso_sigma h) eps_a (numel x);
             b = np_random_normal 0 (line_sigma h) eps_b;
             z = x\<lparr>data := map (\<lambda>(xv, av, yv). xv + av + b * (yv - xv))
                              (zip (data x) (zip a (data y)))\<rparr>
         in if \<not> truthy (max_gene h) \<and> \<not> truthy (min_gene h) then Inr z
            else Inr (torch_clamp z (min_gene h) (max_gene h)))
      else Inl RuntimeError)"

text \<open>
  \<^verbatim>\<open>torch.where(m < rate)\<close> lists the coordinates of the selected elements in
  row-major order. For a tensor of rank 1, 2 or 3 the source indexes with all the
  coordinates, so each of them addresses one element; the model names an element by
  its row-major position.
\<close>

definition torch_where_lt :: "real list \<Rightarrow> real \<Rightarrow> nat list" where
  "torch_where_lt m r = filter (\<lambda>i. m ! i < r) [0..<length m]"

text \<open>\<^verbatim>\<open>y[index] += delta\<close>: the old values are read, then the sums are written.\<close>

definition index_add :: "real list \<Rightarrow> nat list \<Rightarrow> real list \<Rightarrow> real list" where
  "index_add y index delta = fold (\<lambda>(i, d) acc. acc[i := y ! i + d]) (zip index delta) y"

text \<open>
  \<^verbatim>\<open>gaussian_mutation\<close> (lines 236 to 255). \<open>rand i\<close> is element \<open>i\<close> of
  \<^verbatim>\<open>torch.rand_like(y)\<close>, a uniform draw from the interval from 0 to 1; \<open>eps\<close>
  holds the standard normal samples of the draw
  \<^verbatim>\<open>torch.zeros(index[0].shape).normal_(mean=0, std=self.sigma)\<close>, one per selected
  element. A rank outside 1, 2, 3 is outside the model (the source indexes with three
  coordinates whatever the rank): the model answers \<open>IndexError\<close>.
\<close>

definition gaussian_mutation ::
  "hyperparams \<Rightarrow> (nat \<Rightarrow> real) \<Rightarrow> (nat \<Rightarrow> real) \<Rightarrow> tensor \<Rightarrow> py_error + tensor" where
  "gaussian_mutation h rand eps x =
     (let m = map rand [0..<numel x];
          index = torch_where_lt m (mutation_rate h);
          delta = torch_normal 0 (sigma h) eps (length index)
      in if length (shape x) = 1 \<or> length (shape x) = 2 \<or> length (shape x) = 3 then
           (let y = x\<lparr>data := index_add (data x) index delta\<rparr>
            in if \<not> truthy (max_gene h) \<and> \<not> truthy (min_gene h) then Inr y
               else Inr (torch_clamp y (min_gene h) (max_gene h)))
         else Inl IndexError)"

subsection \<open>The pipeline \<^verbatim>\<open>evo\<close>\<close>

text \<open>
  A state dict is an ordered dictionary from parameter names to tensors. Python's
  \<^verbatim>\<open>'bias' in tensor\<close> is the substring test, and \<^verbatim>\<open>'weight' or 'bias' in tensor\<close>
  parses as \<^verbatim>\<open>'weight' or ('bias' in tensor)\<close>, whose truth value is that of the
  string \<^verbatim>\<open>'weight'\<close> when it is not empty.
\<close>

type_synonym state_dict = "(string \<times> tensor) list"

fun py_in :: "string \<Rightarrow> string \<Rightarrow> bool" where
  "py_in sub [] = (sub = [])"
| "py_in sub (c # cs) = (take (length sub) (c # cs) = sub \<or> py_in sub cs)"

definition str_truthy :: "string \<Rightarrow> bool" where
  "str_truthy s = (s \<noteq> [])"

definition weight_or_bias_in :: "string \<Rightarrow> bool" where
  "weight_or_bias_in tensor = (str_truthy ''weight'' \<or> py_in ''bias'' tensor)"

text \<open>The loop of \<^verbatim>\<open>batch_crossover\<close> (lines 200 to 202) over the names of \<open>x\<close>.\<close>

fun crossover_loop ::
  "string list \<Rightarrow> state_dict \<Rightarrow> state_dict \<Rightarrow> (tensor \<Rightarrow> tensor \<Rightarrow> py_error + tensor) \<Rightarrow>
   state_dict \<Rightarrow> py_error + state_dict" where
  "crossover_loop [] x_dict y_dict cross_fn z = Inr z"
| "crossover_loop (t # ts) x_dict y_dict cross_fn z =
     (if weight_or_bias_in t then
        (case map_of x_dict t of
           None \<Rightarrow> Inl (KeyError t)
         | Some xt \<Rightarrow>
             (case map_of y_dict t of
                None \<Rightarrow> Inl (KeyError t)
              | Some yt \<Rightarrow>
                  (case cross_fn xt yt of
                     Inl e \<Rightarrow> Inl e
                   | Inr zt \<Rightarrow> crossover_loop ts x_dict y_dict cross_fn (AList.update t zt z))))
      else crossover_loop ts x_dict y_dict cross_fn z)"

definition batch_crossover ::
  "state_dict \<Rightarrow> state_dict \<Rightarrow> (tensor \<Rightarrow> tensor \<Rightarrow> py_error + tensor) \<Rightarrow> py_error + state_dict" where
  "batch_crossover batch_x_state_dict batch_y_state_dict cross_fn =
     crossover_loop (map fst batch_x_state_dict) batch_x_state_dict batch_y_state_dict cross_fn
       batch_x_state_dict"

text \<open>The loop of \<^verbatim>\<open>batch_mutation\<close> (lines 207 to 209).\<close>

fun mutation_loop ::
  "string list \<Rightarrow> state_dict \<Rightarrow> (tensor \<Rightarrow> py_error + tensor) \<Rightarrow> state_dict \<Rightarrow>
   py_error + state_dict" where
  "mutation_loop [] x_dict mut_fn y = Inr y"
| "mutation_loop (t # ts) x_dict mut_fn y =
     (if weight_or_bias_in t then
        (case map_of x_dict t of
           None \<Rightarrow> Inl (KeyError t)
         | Some xt \<Rightarrow>
             (case mut_fn xt of
                Inl e \<Rightarrow> Inl e
              | Inr yt \<Rightarrow> mutation_loop ts x_dict mut_fn (AList.update t yt y)))
      else mutation_loop ts x_dict mut_fn y)"

definition batch_mutation ::
  "state_dict \<Rightarrow> (tensor \<Rightarrow> py_error + tensor) \<Rightarrow> py_error + state_dict" where
  "batch_mutation batch_x_state_dict mut_fn =
     mutation_loop (map fst batch_x_state_dict) batch_x_state_dict mut_fn batch_x_state_dict"

text \<open>
  \<^verbatim>\<open>evo\<close> (lines 165 to 192) on the state dicts of the batched views: the result is
  the state dict loaded into the child. A stage is a function when it is enabled and
  \<open>None\<close> when it is not.
\<close>

definition evo ::
  "state_dict \<Rightarrow> state_dict option \<Rightarrow> (tensor \<Rightarrow> tensor \<Rightarrow> py_error + tensor) option \<Rightarrow>
   (tensor \<Rightarrow> py_error + tensor) option \<Rightarrow> py_error + state_dict" where
  "evo actor_x actor_y cross_fn mut_fn =
     (case cross_fn of
        Some c \<Rightarrow>
          (case actor_y of
             None \<Rightarrow> Inl (AttributeError ''get_mlp_ids'')
           | Some y \<Rightarrow>
               (case batch_crossover actor_x y c of
                  Inl e \<Rightarrow> Inl e
                | Inr z \<Rightarrow> (case mut_fn of Some m \<Rightarrow> batch_mutation z m | None \<Rightarrow> Inr z)))
      | None \<Rightarrow> (case mut_fn of Some m \<Rightarrow> batch_mutation actor_x m | None \<Rightarrow> Inr actor_x))"

subsection \<open>What a round takes from outside\<close>

text \<open>
  The inputs of one call of \<^verbatim>\<open>evolve_batch\<close> that the operator's fields do not fix.
  \<^item> \<open>choice_x\<close>, \<open>choice_y\<close>: the results of the first and the second
    \<^verbatim>\<open>np.random.choice(free_keys, size=batch_size, replace=False)\<close>.
  \<^item> \<open>set_list\<close>: \<^verbatim>\<open>list(set(actor_x_ids))\<close>, the keys of the set in the order Python
    iterates it.
  \<^item> \<open>state_dict_of\<close>, \<open>update_mlps\<close>: the batched view \<^verbatim>\<open>BatchMLP\<close> of
    \<^verbatim>\<open>utils.vectorized\<close>, which is not among the source files: the state dict of the
    view of an array of policies, and the array with a state dict stored back.
  \<^item> \<open>crossover_call\<close>, \<open>mutation_call\<close>: the bound methods \<^verbatim>\<open>self.crossover_op\<close>
    and \<^verbatim>\<open>self.mutation_op\<close> with the random draws of this round.
\<close>

record 'p round_env =
  choice_x :: "nat list"
  choice_y :: "nat list"
  set_list :: "nat list"
  state_dict_of :: "'p list \<Rightarrow> state_dict"
  update_mlps :: "state_dict \<Rightarrow> 'p list \<Rightarrow> 'p list"
  crossover_call :: "tensor \<Rightarrow> tensor \<Rightarrow> py_error + tensor"
  mutation_call :: "tensor \<Rightarrow> py_error + tensor"

text \<open>What numpy promises of a draw without replacement, and Python of \<^verbatim>\<open>list(set(ids))\<close>.\<close>

definition valid_choice :: "nat set \<Rightarrow> int \<Rightarrow> nat list \<Rightarrow> bool" where
  "valid_choice pool n drawn =
     (int (length drawn) = n \<and> distinct drawn \<and> set drawn \<subseteq> pool)"

definition valid_set_list :: "nat list \<Rightarrow> nat list \<Rightarrow> bool" where
  "valid_set_list ids unique = (distinct unique \<and> set unique = set ids)"

subsection \<open>numpy\<close>

text \<open>A negative size or repeat count raises \<^verbatim>\<open>ValueError\<close>.\<close>

definition np_random_choice :: "nat list \<Rightarrow> int \<Rightarrow> py_error + nat list" where
  "np_random_choice drawn n = (if n < 0 then Inl ValueError else Inr drawn)"

definition np_repeat :: "nat list \<Rightarrow> int \<Rightarrow> py_error + nat list" where
  "np_repeat a repeats =
     (if repeats < 0 then Inl ValueError
      else Inr (concat (map (replicate (nat repeats)) a)))"

text \<open>\<^verbatim>\<open>arr[ids]\<close> for a list of indices: an index past the end raises.\<close>

definition take_rows :: "'a list \<Rightarrow> nat list \<Rightarrow> py_error + 'a list" where
  "take_rows arr ids =
     (if list_all (\<lambda>i. i < length arr) ids then Inr (map ((!) arr) ids) else Inl IndexError)"

text \<open>
  \<^verbatim>\<open>arr.reshape(-1, m)\<close>: numpy raises when \<open>m\<close> is not positive or does not divide
  the size.
\<close>

definition np_reshape :: "'a list \<Rightarrow> int \<Rightarrow> py_error + 'a list list" where
  "np_reshape arr m =
     (if m \<le> 0 then Inl ValueError
      else if length arr mod nat m = 0 then
        Inr (map (\<lambda>i. take (nat m) (drop (i * nat m) arr)) [0..<length arr div nat m])
      else Inl ValueError)"

text \<open>Python's \<^verbatim>\<open>int(x)\<close> of a float truncates towards zero.\<close>

definition py_int :: "real \<Rightarrow> int" where
  "py_int r = (if 0 \<le> r then \<lfloor>r\<rfloor> else \<lceil>r\<rceil>)"

subsection \<open>The round \<^verbatim>\<open>evolve_batch\<close>\<close>

definition batch_size_of :: "config \<Rightarrow> bool \<Rightarrow> int" where
  "batch_size_of c init =
     (if init then random_init_batch c
      else py_int (real_of_int (eval_batch_size c) * proportion_evo c))"

text \<open>\<^verbatim>\<open>set(keys)\<close> of lines 106 and 110.\<close>

definition candidate_keys :: "'p variation_operator \<Rightarrow> bool \<Rightarrow> nat set" where
  "candidate_keys s init =
     (if init then free_policy_keys s else set (map (\<lambda>x. fst (snd x)) (elites_map s)))"

definition free_keys :: "'p variation_operator \<Rightarrow> bool \<Rightarrow> nat set" where
  "free_keys s init = free_policy_keys s \<inter> candidate_keys s init"

text \<open>Lines 118 to 129: the replicated keys of the two parents.\<close>

definition draw_parents ::
  "'p round_env \<Rightarrow> 'p variation_operator \<Rightarrow> int \<Rightarrow> py_error + (nat list \<times> nat list)" where
  "draw_parents env s batch_size =
     (if mutation_op s \<noteq> None \<and> crossover_op s = None then
        (case np_random_choice (choice_x env) batch_size of
           Inl e \<Rightarrow> Inl e
         | Inr xs \<Rightarrow>
             (case np_repeat xs (mutations_per_policy (cfg s)) of
                Inl e \<Rightarrow> Inl e
              | Inr actor_x_ids \<Rightarrow> Inr (actor_x_ids, [])))
      else if crossover_op s \<noteq> None then
        (case np_random_choice (choice_x env) batch_size of
           Inl e \<Rightarrow> Inl e
         | Inr xs \<Rightarrow>
             (case np_random_choice (choice_y env) batch_size of
                Inl e \<Rightarrow> Inl e
              | Inr ys \<Rightarrow>
                  (case np_repeat xs (mutations_per_policy (cfg s)) of
                     Inl e \<Rightarrow> Inl e
                   | Inr actor_x_ids \<Rightarrow>
                       (case np_repeat ys (mutations_per_policy (cfg s)) of
                          Inl e \<Rightarrow> Inl e
                        | Inr actor_y_ids \<Rightarrow> Inr (actor_x_ids, actor_y_ids)))))
      else Inr ([], []))"

text \<open>
  Lines 148 to 150: slot \<open>j\<close> of a cached row takes the state of child \<open>j\<close>;
  \<^verbatim>\<open>zip\<close> stops at the shorter of the two.
\<close>

definition load_row :: "'p list \<Rightarrow> 'p list \<Rightarrow> 'p list" where
  "load_row p_cache pz = take (length p_cache) pz @ drop (length pz) p_cache"

fun scatter :: "'p list list \<Rightarrow> (nat \<times> 'p list) list \<Rightarrow> 'p list list" where
  "scatter cache [] = cache"
| "scatter cache ((k, pz) # rest) = scatter (cache[k := load_row (cache ! k) pz]) rest"

text \<open>
  Lines 134 to 142: the parents are gathered from the pool, the batched views are
  evolved by \<^verbatim>\<open>evo\<close>, and the child parameters are stored into a copy of the
  \<open>x\<close> parents. The result is the flat array \<^verbatim>\<open>actors_z\<close> before its reshape.
\<close>

definition evolved_actors ::
  "'p round_env \<Rightarrow> 'p variation_operator \<Rightarrow> nat list \<Rightarrow> nat list \<Rightarrow> py_error + 'p list" where
  "evolved_actors env s actor_x_ids actor_y_ids =
     (case take_rows (all_actors s) actor_x_ids of
        Inl e \<Rightarrow> Inl e
      | Inr actors_x_evo \<Rightarrow>
          (case take_rows (all_actors s) actor_y_ids of
             Inl e \<Rightarrow> Inl e
           | Inr actors_y_evo \<Rightarrow>
               (case evo (state_dict_of env actors_x_evo)
                       (Some (state_dict_of env actors_y_evo))
                       (map_option (\<lambda>_. crossover_call env) (crossover_op s))
                       (map_option (\<lambda>_. mutation_call env) (mutation_op s)) of
                  Inl e \<Rightarrow> Inl e
                | Inr actor_z \<Rightarrow> Inr (update_mlps env actor_z actors_x_evo))))"

text \<open>
  \<^verbatim>\<open>evolve_batch\<close> (lines 98 to 153). An exception ends the round with \<open>Inl\<close>; the
  skipped round and the completed round return the operator.
\<close>

definition evolve_batch ::
  "'p round_env \<Rightarrow> bool \<Rightarrow> 'p variation_operator \<Rightarrow> py_error + 'p variation_operator" where
  "evolve_batch env init s =
     (let batch_size = batch_size_of (cfg s) init;
          n_free = card (free_keys s init);
          s0 = s\<lparr>log := log s @ [(DEBUG, if init then Initializing_map else Mutating_from_map)]\<rparr>
      in if int n_free < batch_size then
           Inr (s0\<lparr>log := log s0 @ [(WARN, Not_enough_free n_free batch_size)]\<rparr>)
         else
           (case draw_parents env s batch_size of
              Inl e \<Rightarrow> Inl e
            | Inr (actor_x_ids, actor_y_ids) \<Rightarrow>
                (case evolved_actors env s actor_x_ids actor_y_ids of
                   Inl e \<Rightarrow> Inl e
                 | Inr actors_z_flat \<Rightarrow>
                     (case take_rows (eval_cache s) (set_list env) of
                        Inl e \<Rightarrow> Inl e
                      | Inr cached_actors \<Rightarrow>
                          (case np_reshape actors_z_flat (mutations_per_policy (cfg s)) of
                             Inl e \<Rightarrow> Inl e
                           | Inr actors_z \<Rightarrow>
                               Inr (s0\<lparr>free_policy_keys := free_policy_keys s - set actor_x_ids,
                                       eval_cache :=
                                         scatter (eval_cache s) (zip (set_list env) actors_z),
                                       queued_for_eval :=
                                         queued_for_eval s + int (length actor_x_ids),
                                       eval_in_queue := eval_in_queue s @ [set_list env],
                                       signals :=
                                         signals s @ [To_evaluate (object_id s) (init_mode s)],
                                       log := log s0 @ [(DEBUG, Mutated_actors)]\<rparr>))))))"

text \<open>\<^verbatim>\<open>maybe_mutate_new_batch\<close> (lines 93 to 96), the slot of the periodic timer.\<close>

definition maybe_mutate_new_batch ::
  "'p round_env \<Rightarrow> 'p variation_operator \<Rightarrow> py_error + 'p variation_operator" where
  "maybe_mutate_new_batch env s =
     (if queued_for_eval s < 2 * num_agents (cfg s) then
        evolve_batch env (int (length (elites_map s)) \<le> random_init (cfg s)) s
      else Inr s)"

subsection \<open>Sequences of calls\<close>

text \<open>
  The event loop runs one handler at a time. A run applies the calls in order and ends
  at the first exception. \<open>replicated_keys\<close> is \<^verbatim>\<open>actor_x_ids\<close> of a round, the
  replicated keys it submits (none when the round is skipped); \<open>submitted\<close> and
  \<open>reported\<close> add up, along a run, the replicated keys submitted and the agents
  reported back.
\<close>

datatype ('p, 'a) call =
    Evolve_batch "'p round_env" bool
  | On_eval_results nat "'a list"

fun step :: "('p, 'a) call \<Rightarrow> 'p variation_operator \<Rightarrow> py_error + 'p variation_operator" where
  "step (Evolve_batch env init) s = evolve_batch env init s"
| "step (On_eval_results oid agents) s = Inr (on_eval_results oid agents s)"

fun run :: "('p, 'a) call list \<Rightarrow> 'p variation_operator \<Rightarrow> py_error + 'p variation_operator" where
  "run [] s = Inr s"
| "run (c # cs) s = (case step c s of Inl e \<Rightarrow> Inl e | Inr s' \<Rightarrow> run cs s')"

definition replicated_keys :: "'p round_env \<Rightarrow> bool \<Rightarrow> 'p variation_operator \<Rightarrow> nat list" where
  "replicated_keys env init s =
     (if int (card (free_keys s init)) < batch_size_of (cfg s) init then []
      else (case draw_parents env s (batch_size_of (cfg s) init) of
              Inl e \<Rightarrow> []
            | Inr (actor_x_ids, actor_y_ids) \<Rightarrow> actor_x_ids))"

fun submitted_by :: "('p, 'a) call \<Rightarrow> 'p variation_operator \<Rightarrow> int" where
  "submitted_by (Evolve_batch env init) s = int (length (replicated_keys env init s))"
| "submitted_by (On_eval_results oid agents) s = 0"

fun reported_by :: "('p, 'a) call \<Rightarrow> int" where
  "reported_by (Evolve_batch env init) = 0"
| "reported_by (On_eval_results oid agents) = int (length agents)"

fun submitted :: "('p, 'a) call list \<Rightarrow> 'p variation_operator \<Rightarrow> int" where
  "submitted [] s = 0"
| "submitted (c # cs) s =
     (case step c s of Inl e \<Rightarrow> 0 | Inr s' \<Rightarrow> submitted_by c s + submitted cs s')"

definition reported :: "('p, 'a) call list \<Rightarrow> int" where
  "reported cs = sum_list (map reported_by cs)"

subsection \<open>Concrete operators\<close>

text \<open>
  A pool of one-parameter policies, used to run the model on concrete inputs. A policy
  is the value of its parameter; the batched view stacks the parameters of its policies
  into the tensor \<^verbatim>\<open>layers.0.weight\<close>.
\<close>

definition stack_params :: "real list \<Rightarrow> state_dict" where
  "stack_params ps = [(''layers.0.weight'', \<lparr>shape = [length ps, 1], data = ps\<rparr>)]"

definition unstack_params :: "state_dict \<Rightarrow> real list \<Rightarrow> real list" where
  "unstack_params sd ps =
     (case map_of sd ''layers.0.weight'' of
        Some t \<Rightarrow> if length (data t) = length ps then data t else ps
      | None \<Rightarrow> ps)"

definition env_of :: "nat list \<Rightarrow> nat list \<Rightarrow> nat list \<Rightarrow> real round_env" where
  "env_of xs ys unique =
     \<lparr>choice_x = xs, choice_y = ys, set_list = unique,
      state_dict_of = stack_params, update_mlps = unstack_params,
      crossover_call = iso_dd default_hyperparams (\<lambda>_. 0) 10,
      mutation_call = gaussian_mutation default_hyperparams (\<lambda>_. 1) (\<lambda>_. 0)\<rparr>"

definition config_of :: "string \<Rightarrow> string \<Rightarrow> int \<Rightarrow> int \<Rightarrow> config" where
  "config_of cname mname init_batch threshold =
     \<lparr>cfg_crossover_op = cname, cfg_mutation_op = mname, random_init_batch = init_batch,
      eval_batch_size = 4, proportion_evo = 1 / 2, mutations_per_policy = 2,
      random_init = threshold, num_agents = 4\<rparr>"

text \<open>
  The bootstrap scenario: keys 0 to 99 free, no elite, threshold 10, bootstrap batches
  of 8, two children per parent.
\<close>

definition bootstrap_op :: "py_error + real variation_operator" where
  "bootstrap_op =
     VariationOperator_init (config_of ''iso_dd'' ''gaussian_mutation'' 8 10)
       (map real [0..<100]) []
       (replicate 100 [0, 0]) [] (set [0..<100]) 7 default_hyperparams"

definition bootstrap_env :: "real round_env" where
  "bootstrap_env =
     env_of [3, 1, 4, 15, 9, 2, 6, 5] [8, 9, 7, 3, 2, 38, 46, 26] [1, 2, 3, 4, 5, 6, 9, 15]"

text \<open>
  A small pool of six keys with the elites \<open>elites\<close>; \<open>small_env\<close> draws the keys 0
  and 2 as \<open>x\<close> parents and 1 and 2 as \<open>y\<close> parents.
\<close>

definition small_op ::
  "config \<Rightarrow> (nat \<times> nat \<times> real) list \<Rightarrow> nat list \<Rightarrow> py_error + real variation_operator" where
  "small_op c elites free =
     VariationOperator_init c (map real [0..<6]) elites (replicate 6 [0, 0]) [] (set free) 7
       default_hyperparams"

definition small_env :: "real round_env" where
  "small_env = env_of [0, 2] [1, 2] [0, 2]"

text \<open>
  The inputs of a round of an operator with both stages disabled: the round draws
  nothing, so \<^verbatim>\<open>list(set(actor_x_ids))\<close> is the empty list.
\<close>

definition idle_env :: "real round_env" where
  "idle_env = env_of [0, 2] [1, 2] []"

definition three_elites :: "(nat \<times> nat \<times> real) list" where
  "three_elites = [(0, 0, 1), (1, 1, 2), (2, 2, 3)]"

text \<open>
  The parameters of the policy of \<^verbatim>\<open>src/testing/jit_testing.py\<close> for a batch of
  one: a weight, a bias, and \<^verbatim>\<open>_action_log_std\<close>, whose name holds neither
  \<^verbatim>\<open>weight\<close> nor \<^verbatim>\<open>bias\<close>. \<open>always_mutate\<close> is \<^verbatim>\<open>gaussian_mutation\<close> with
  rate 1, the default \<open>sigma\<close> of a tenth and draws that select every element and add
  one \<open>sigma\<close> to it.
\<close>

definition ant_state_dict :: state_dict where
  "ant_state_dict =
     [(''layers.0.weight'', \<lparr>shape = [1, 2], data = [1, 2]\<rparr>),
      (''layers.0.bias'', \<lparr>shape = [1], data = [3]\<rparr>),
      (''_action_log_std'', \<lparr>shape = [1], data = [0]\<rparr>)]"

definition always_mutate :: "tensor \<Rightarrow> py_error + tensor" where
  "always_mutate =
     gaussian_mutation (default_hyperparams\<lparr>mutation_rate := 1\<rparr>) (\<lambda>_. 1 / 2) (\<lambda>_. 1)"

text \<open>
  Gene bounds \<open>-1\<close> and \<open>1\<close>, the upper bound alone, and both bounds at 0. In
  \<open>unit_hyperparams\<close> the three standard deviations are 1, so that a draw is its
  standard normal sample.
\<close>

definition clamped_hyperparams :: hyperparams where
  "clamped_hyperparams = default_hyperparams\<lparr>max_gene := Py_float 1, min_gene := Py_float (- 1)\<rparr>"

definition max_only_hyperparams :: hyperparams where
  "max_only_hyperparams = default_hyperparams\<lparr>max_gene := Py_float 1\<rparr>"

definition zero_bounds_hyperparams :: hyperparams where
  "zero_bounds_hyperparams = default_hyperparams\<lparr>max_gene := Py_float 0, min_gene := Py_float 0\<rparr>"

definition unit_hyperparams :: hyperparams where
  "unit_hyperparams = default_hyperparams\<lparr>sigma := 1, iso_sigma := 1, line_sigma := 1\<rparr>"

text \<open>A draw of \<^verbatim>\<open>torch.rand_like\<close> that is 0 at even positions and 1 at odd ones.\<close>

definition even_rand :: "nat \<Rightarrow> real" where
  "even_rand i = (if even i then 0 else 1)"

section \<open>Properties\<close>

subsection \<open>Auxiliary facts\<close>

lemma weight_or_bias_in_always: "weight_or_bias_in t"
  by (simp add: weight_or_bias_in_def str_truthy_def)

lemma np_repeat_Inr:
  "np_repeat a m = Inr r \<Longrightarrow> 0 \<le> m \<and> r = concat (map (replicate (nat m)) a)"
  by (auto simp: np_repeat_def split: if_splits)

lemma length_concat_replicate: "length (concat (map (replicate n) a)) = length a * n"
  by (induction a) auto

lemma set_concat_replicate: "0 < n \<Longrightarrow> set (concat (map (replicate n) a)) = set a"
  by (induction a) auto

lemma draw_parents_Inr:
  assumes "draw_parents env s b = Inr (xs, ys)"
    and "crossover_op s \<noteq> None \<or> mutation_op s \<noteq> None"
  shows "0 \<le> b \<and> 0 \<le> mutations_per_policy (cfg s)
     \<and> xs = concat (map (replicate (nat (mutations_per_policy (cfg s)))) (choice_x env))"
  using assms
  by (auto simp: draw_parents_def np_random_choice_def dest!: np_repeat_Inr
      split: if_splits sum.splits)

lemma draw_parents_ys:
  assumes "draw_parents env s b = Inr (xs, ys)"
  shows "ys = (if crossover_op s = None then []
               else concat (map (replicate (nat (mutations_per_policy (cfg s)))) (choice_y env)))"
  using assms
  by (auto simp: draw_parents_def np_random_choice_def dest!: np_repeat_Inr
      split: if_splits sum.splits)

lemma np_reshape_Inr:
  assumes "np_reshape arr m = Inr rows"
  shows "0 < m \<and> length arr mod nat m = 0
     \<and> rows = map (\<lambda>i. take (nat m) (drop (i * nat m) arr)) [0..<length arr div nat m]"
  using assms by (auto simp: np_reshape_def split: if_splits)

lemma evolved_actors_length:
  assumes "evolved_actors env s xs ys = Inr flat"
    and "\<And>sd ps. length (update_mlps env sd ps) = length ps"
  shows "length flat = length xs"
  using assms
  by (auto simp: evolved_actors_def take_rows_def split: sum.splits if_splits)

lemma evolved_actors_Inr:
  assumes "evolved_actors env s xs ys = Inr flat"
  shows "\<exists>actor_z.
      evo (state_dict_of env (map ((!) (all_actors s)) xs))
        (Some (state_dict_of env (map ((!) (all_actors s)) ys)))
        (map_option (\<lambda>_. crossover_call env) (crossover_op s))
        (map_option (\<lambda>_. mutation_call env) (mutation_op s)) = Inr actor_z
    \<and> flat = update_mlps env actor_z (map ((!) (all_actors s)) xs)"
  using assms
  by (auto simp: evolved_actors_def take_rows_def split: sum.splits if_splits)

lemma evolve_batch_Inr:
  assumes "evolve_batch env init s = Inr s'"
    and "batch_size_of (cfg s) init \<le> int (card (free_keys s init))"
  obtains xs ys flat rows where
    "draw_parents env s (batch_size_of (cfg s) init) = Inr (xs, ys)"
    "evolved_actors env s xs ys = Inr flat"
    "list_all (\<lambda>i. i < length (eval_cache s)) (set_list env)"
    "np_reshape flat (mutations_per_policy (cfg s)) = Inr rows"
    "free_policy_keys s' = free_policy_keys s - set xs"
    "eval_cache s' = scatter (eval_cache s) (zip (set_list env) rows)"
    "queued_for_eval s' = queued_for_eval s + int (length xs)"
    "eval_in_queue s' = eval_in_queue s @ [set_list env]"
    "signals s' = signals s @ [To_evaluate (object_id s) (init_mode s)]"
    "init_mode s' = init_mode s"
  using assms
  by (auto simp: evolve_batch_def Let_def take_rows_def split: sum.splits if_splits prod.splits)

lemma scatter_length: "length (scatter cache kvs) = length cache"
  by (induction cache kvs rule: scatter.induct) auto

lemma scatter_other: "k \<notin> fst ` set kvs \<Longrightarrow> scatter cache kvs ! k = cache ! k"
  by (induction cache kvs rule: scatter.induct) auto

lemma scatter_nth:
  assumes "distinct (map fst kvs)" and "(k, pz) \<in> set kvs" and "k < length cache"
  shows "scatter cache kvs ! k = load_row (cache ! k) pz"
  using assms
proof (induction cache kvs rule: scatter.induct)
  case (1 cache)
  then show ?case by simp
next
  case (2 cache k' pz' rest)
  show ?case
  proof (cases "k = k'")
    case True
    with 2 have "pz = pz'" by (auto simp: image_iff)
    moreover from 2 True have "k \<notin> fst ` set rest" by auto
    ultimately show ?thesis using True 2(4) by (simp add: scatter_other)
  next
    case False
    with 2 show ?thesis by auto
  qed
qed

lemma load_row_same_length: "length p = length pz \<Longrightarrow> load_row p pz = pz"
  by (simp add: load_row_def)

lemma replicated_keys_eq:
  assumes "batch_size_of (cfg s) init \<le> int (card (free_keys s init))"
    and "draw_parents env s (batch_size_of (cfg s) init) = Inr (xs, ys)"
  shows "replicated_keys env init s = xs"
  using assms by (simp add: replicated_keys_def)

lemma evolve_batch_queued:
  assumes "evolve_batch env init s = Inr s'"
  shows "queued_for_eval s' = queued_for_eval s + int (length (replicated_keys env init s))"
proof (cases "int (card (free_keys s init)) < batch_size_of (cfg s) init")
  case True
  with assms show ?thesis
    by (auto simp: evolve_batch_def Let_def replicated_keys_def)
next
  case False
  then have enough: "batch_size_of (cfg s) init \<le> int (card (free_keys s init))" by simp
  from assms enough obtain xs ys where
    "draw_parents env s (batch_size_of (cfg s) init) = Inr (xs, ys)"
    "queued_for_eval s' = queued_for_eval s + int (length xs)"
    by (rule evolve_batch_Inr)
  then show ?thesis using enough by (simp add: replicated_keys_eq)
qed

lemma step_queued:
  assumes "step c s = Inr s'"
  shows "queued_for_eval s' = queued_for_eval s + submitted_by c s - reported_by c"
proof (cases c)
  case (Evolve_batch env init)
  with assms show ?thesis by (simp add: evolve_batch_queued)
next
  case (On_eval_results oid agents)
  with assms show ?thesis by (auto simp: on_eval_results_def Let_def)
qed

lemma run_queued:
  "run cs s = Inr s' \<Longrightarrow>
     queued_for_eval s' = queued_for_eval s + submitted cs s - reported cs"
proof (induction cs arbitrary: s)
  case Nil
  then show ?case by (simp add: reported_def)
next
  case (Cons c cs)
  from Cons.prems obtain s1 where s1: "step c s = Inr s1" and rest: "run cs s1 = Inr s'"
    by (auto split: sum.splits)
  from Cons.IH [OF rest] step_queued [OF s1] s1 show ?case
    by (simp add: reported_def)
qed

lemma fold_index_put_nth:
  assumes "distinct (map fst kvs)" and "i < length acc"
  shows "fold (\<lambda>(k, d) acc. acc[k := f k d]) kvs acc ! i
           = (case map_of kvs i of Some d \<Rightarrow> f i d | None \<Rightarrow> acc ! i)"
  using assms
proof (induction kvs arbitrary: acc)
  case Nil
  then show ?case by simp
next
  case (Cons kv kvs)
  obtain k d where kv: "kv = (k, d)" by (cases kv)
  from Cons.prems have dist: "distinct (map fst kvs)" and notin: "k \<notin> fst ` set kvs"
    by (simp_all add: kv)
  have len: "i < length (acc[k := f k d])" using Cons.prems by simp
  have none: "map_of kvs k = None" using notin by (simp add: map_of_eq_None_iff)
  show ?case
    using Cons.IH [OF dist len] Cons.prems(2) none by (auto simp: kv split: option.splits)
qed

lemma fold_index_put_length:
  "length (fold (\<lambda>(k, d) acc. acc[k := f k d]) kvs acc) = length acc"
  by (induction kvs arbitrary: acc) auto

lemma filter_upt_split:
  assumes "i < n" and "P i"
  shows "filter P [0..<n] = filter P [0..<i] @ i # filter P [Suc i..<n]"
proof -
  have "[0..<n] = [0..<i] @ i # [Suc i..<n]"
    using assms(1) by (metis less_imp_le_nat upt_add_eq_append upt_conv_Cons zero_le le_add_diff_inverse)
  then show ?thesis using assms(2) by simp
qed

lemma filter_upt_rank:
  assumes "i < n" and "P i"
  shows "length (filter P [0..<i]) < length (filter P [0..<n])
     \<and> filter P [0..<n] ! length (filter P [0..<i]) = i"
  using filter_upt_split [of i n P] assms by (simp add: nth_append)

lemma index_add_nth:
  assumes "i < length y"
  shows "index_add y (filter P [0..<length y]) (map g [0..<length (filter P [0..<length y])]) ! i
           = (if P i then y ! i + g (length (filter P [0..<i])) else y ! i)"
proof -
  let ?idx = "filter P [0..<length y]"
  let ?delta = "map g [0..<length ?idx]"
  have dist: "distinct (map fst (zip ?idx ?delta))" by simp
  have eq: "index_add y ?idx ?delta ! i
      = (case map_of (zip ?idx ?delta) i of Some d \<Rightarrow> y ! i + d | None \<Rightarrow> y ! i)"
    unfolding index_add_def using fold_index_put_nth [OF dist assms, of "\<lambda>k d. y ! k + d"] .
  show ?thesis
  proof (cases "P i")
    case True
    let ?j = "length (filter P [0..<i])"
    from filter_upt_rank [of i "length y" P] assms True have j: "?j < length ?idx" and at: "?idx ! ?j = i"
      by simp_all
    have "map_of (zip ?idx ?delta) (?idx ! ?j) = Some (?delta ! ?j)"
      using j by (intro map_of_zip_nth) simp_all
    then have some: "map_of (zip ?idx ?delta) i = Some (g ?j)"
      using j at by simp
    show ?thesis unfolding eq some using True by simp
  next
    case False
    then have "i \<notin> set ?idx" by simp
    then have none: "map_of (zip ?idx ?delta) i = None"
      by (simp add: map_of_zip_is_None)
    show ?thesis unfolding eq none using False by simp
  qed
qed

lemma index_add_length: "length (index_add y index delta) = length y"
  by (simp add: index_add_def fold_index_put_length)

lemma torch_where_lt_rand:
  "torch_where_lt (map rand [0..<n]) r = filter (\<lambda>i. rand i < r) [0..<n]"
  by (auto simp: torch_where_lt_def intro: filter_cong)

lemma gaussian_mutation_unclamped:
  assumes "length (shape x) = 1 \<or> length (shape x) = 2 \<or> length (shape x) = 3"
  shows "gaussian_mutation h rand eps x =
     (let idx = filter (\<lambda>i. rand i < mutation_rate h) [0..<length (data x)];
          y = x\<lparr>data := index_add (data x) idx
                            (map (\<lambda>j. sigma h * eps j) [0..<length idx])\<rparr>
      in if truthy (max_gene h) \<or> truthy (min_gene h)
         then Inr (torch_clamp y (min_gene h) (max_gene h)) else Inr y)"
  using assms
  by (auto simp: gaussian_mutation_def Let_def torch_where_lt_rand numel_def torch_normal_def)

lemma evolve_batch_emits_init_mode:
  assumes "evolve_batch env init s = Inr s'"
  shows "init_mode s' = init_mode s
     \<and> (signals s' = signals s
         \<or> signals s' = signals s @ [To_evaluate (object_id s) (init_mode s)])"
  using assms
  by (auto simp: evolve_batch_def Let_def split: sum.splits if_splits prod.splits)

lemma init_unrecognized_names:
  assumes "cfg_crossover_op c \<notin> {''sbx'', ''iso_dd''}"
    and "cfg_mutation_op c
           \<notin> {''polynomial_mutation'', ''gaussian_mutation'', ''uniform_mutation''}"
  shows "\<exists>s. VariationOperator_init c actors elites cache queue free oid h = Inr s
     \<and> crossover_op s = None \<and> mutation_op s = None
     \<and> log s = [(WARN, Not_using_crossover), (WARN, Not_using_mutation)]"
  using assms by (simp add: VariationOperator_init_def resolve_op_def)

lemma init_defined_names:
  assumes "cfg_crossover_op c = ''iso_dd''" and "cfg_mutation_op c = ''gaussian_mutation''"
  shows "\<exists>s. VariationOperator_init c actors elites cache queue free oid h = Inr s
     \<and> crossover_op s = Some M_iso_dd \<and> mutation_op s = Some M_gaussian_mutation
     \<and> log s = []"
  using assms by (simp add: VariationOperator_init_def resolve_op_def getattr_op_def)

lemma unstack_params_length: "length (unstack_params sd ps) = length ps"
  by (simp add: unstack_params_def split: option.splits)

subsection \<open>The round\<close>

text \<open>
  Claim C1, as amended. A call of \<^verbatim>\<open>evolve_batch\<close> that returns, is not skipped and
  has at least one of the two stages enabled removes the \<open>B\<close> drawn \<open>x\<close> keys from the
  free keys. \<^verbatim>\<open>actor_x_ids\<close> is the draw with every key repeated
  \<open>mutations_per_policy\<close> times; the children are the \<open>x\<close> parents, gathered from
  the pool at these keys, with the parameters stored into them that \<^verbatim>\<open>evo\<close> computes
  from the batched views of the \<open>x\<close> and the \<open>y\<close> parents with the enabled stages.
  There are \<open>B * mutations_per_policy\<close> children, and row \<open>i\<close> of their reshape,
  \<open>mutations_per_policy\<close> of them, is written into the cache row of the \<open>i\<close>-th
  key of \<^verbatim>\<open>list(set(actor_x_ids))\<close>. The list of unique \<open>x\<close> keys is put on the
  queue, \<open>queued_for_eval\<close> grows by \<open>B * mutations_per_policy\<close> and one signal is
  emitted. The draw is one numpy may return, the cache rows have
  \<open>mutations_per_policy\<close> slots, and the batched view gives back as many policies as
  it was given.
\<close>

theorem evolve_batch_round:
  assumes ok: "evolve_batch env init s = Inr s'"
    and enough: "batch_size_of (cfg s) init \<le> int (card (free_keys s init))"
    and stage: "crossover_op s \<noteq> None \<or> mutation_op s \<noteq> None"
    and cx: "valid_choice (free_keys s init) (batch_size_of (cfg s) init) (choice_x env)"
    and sl: "valid_set_list (replicated_keys env init s) (set_list env)"
    and depth: "list_all (\<lambda>row. int (length row) = mutations_per_policy (cfg s)) (eval_cache s)"
    and upd: "\<And>sd ps. length (update_mlps env sd ps) = length ps"
  shows "free_policy_keys s' = free_policy_keys s - set (choice_x env)
     \<and> int (card (set (choice_x env))) = batch_size_of (cfg s) init
     \<and> distinct (set_list env) \<and> set (set_list env) = set (choice_x env)
     \<and> replicated_keys env init s
         = concat (map (replicate (nat (mutations_per_policy (cfg s)))) (choice_x env))
     \<and> (\<exists>actor_z children.
           evo (state_dict_of env (map ((!) (all_actors s)) (replicated_keys env init s)))
             (Some (state_dict_of env (map ((!) (all_actors s))
                (if crossover_op s = None then []
                 else concat (map (replicate (nat (mutations_per_policy (cfg s))))
                        (choice_y env))))))
             (map_option (\<lambda>_. crossover_call env) (crossover_op s))
             (map_option (\<lambda>_. mutation_call env) (mutation_op s)) = Inr actor_z
         \<and> children
             = update_mlps env actor_z (map ((!) (all_actors s)) (replicated_keys env init s))
         \<and> int (length children) = batch_size_of (cfg s) init * mutations_per_policy (cfg s)
         \<and> (\<forall>i < length (set_list env).
               eval_cache s' ! (set_list env ! i)
                 = take (nat (mutations_per_policy (cfg s)))
                     (drop (i * nat (mutations_per_policy (cfg s))) children)
             \<and> int (length (eval_cache s' ! (set_list env ! i))) = mutations_per_policy (cfg s)))
     \<and> eval_in_queue s' = eval_in_queue s @ [set_list env]
     \<and> queued_for_eval s' = queued_for_eval s + batch_size_of (cfg s) init * mutations_per_policy (cfg s)
     \<and> signals s' = signals s @ [To_evaluate (object_id s) (init_mode s)]"
proof -
  let ?b = "batch_size_of (cfg s) init"
  let ?m = "mutations_per_policy (cfg s)"
  let ?ys = "if crossover_op s = None then []
             else concat (map (replicate (nat ?m)) (choice_y env))"
  from ok enough obtain xs ys flat rows where
    dp: "draw_parents env s ?b = Inr (xs, ys)"
    and ea: "evolved_actors env s xs ys = Inr flat"
    and inb: "list_all (\<lambda>i. i < length (eval_cache s)) (set_list env)"
    and rs: "np_reshape flat ?m = Inr rows"
    and free: "free_policy_keys s' = free_policy_keys s - set xs"
    and cache: "eval_cache s' = scatter (eval_cache s) (zip (set_list env) rows)"
    and q: "queued_for_eval s' = queued_for_eval s + int (length xs)"
    and queue: "eval_in_queue s' = eval_in_queue s @ [set_list env]"
    and sig: "signals s' = signals s @ [To_evaluate (object_id s) (init_mode s)]"
    by (rule evolve_batch_Inr)
  from dp stage have xs: "xs = concat (map (replicate (nat ?m)) (choice_x env))"
    using draw_parents_Inr by blast
  from dp have ys: "ys = ?ys" by (rule draw_parents_ys)
  from rs have mpos: "0 < ?m" and rows: "rows = map (\<lambda>i. take (nat ?m) (drop (i * nat ?m) flat)) [0..<length flat div nat ?m]"
    using np_reshape_Inr by blast+
  from cx have lenx: "int (length (choice_x env)) = ?b" and dx: "distinct (choice_x env)"
    by (simp_all add: valid_choice_def)
  have rk: "replicated_keys env init s = xs"
    using enough dp by (rule replicated_keys_eq)
  have setxs: "set xs = set (choice_x env)"
    using mpos by (simp add: xs set_concat_replicate)
  have lenxs: "length xs = length (choice_x env) * nat ?m"
    by (simp add: xs length_concat_replicate)
  have lenflat: "length flat = length (choice_x env) * nat ?m"
    using evolved_actors_length [OF ea upd] lenxs by simp
  from sl rk setxs have dsl: "distinct (set_list env)" and ssl: "set (set_list env) = set (choice_x env)"
    by (simp_all add: valid_set_list_def)
  have lensl: "length (set_list env) = length (choice_x env)"
    using dsl ssl dx by (metis distinct_card)
  have lenrows: "length rows = length (choice_x env)"
    using mpos by (simp add: rows lenflat)
  have card: "int (card (set (choice_x env))) = ?b"
    using dx lenx by (simp add: distinct_card)
  have intlen: "int (length xs) = ?b * ?m"
    using lenxs lenx mpos by (simp add: nat_0_le)
  have slots: "eval_cache s' ! (set_list env ! i) = take (nat ?m) (drop (i * nat ?m) flat)
      \<and> int (length (eval_cache s' ! (set_list env ! i))) = ?m"
    if i: "i < length (set_list env)" for i
  proof -
    let ?k = "set_list env ! i"
    have kin: "?k < length (eval_cache s)"
      using inb i by (simp add: list_all_length)
    have row_i: "rows ! i = take (nat ?m) (drop (i * nat ?m) flat)"
      using i lensl lenrows by (simp add: rows lenflat mpos)
    have "(i + 1) * nat ?m \<le> length flat"
      using i lensl lenflat by (metis Suc_eq_plus1 Suc_leI mult_le_mono1)
    then have len_row: "length (rows ! i) = nat ?m"
      by (simp add: row_i)
    have "length (eval_cache s ! ?k) = nat ?m"
      using depth kin mpos by (auto simp: list_all_length)
    then have same: "load_row (eval_cache s ! ?k) (rows ! i) = rows ! i"
      using len_row by (simp add: load_row_same_length)
    have mem: "(?k, rows ! i) \<in> set (zip (set_list env) rows)"
      using i lensl lenrows by (metis in_set_zip fst_conv snd_conv)
    have dz: "distinct (map fst (zip (set_list env) rows))"
      using dsl lensl lenrows by simp
    have "eval_cache s' ! ?k = rows ! i"
      using scatter_nth [OF dz mem kin] same by (simp add: cache)
    then show ?thesis using row_i len_row mpos by simp
  qed
  from evolved_actors_Inr [OF ea] obtain actor_z where
    ev: "evo (state_dict_of env (map ((!) (all_actors s)) xs))
           (Some (state_dict_of env (map ((!) (all_actors s)) ys)))
           (map_option (\<lambda>_. crossover_call env) (crossover_op s))
           (map_option (\<lambda>_. mutation_call env) (mutation_op s)) = Inr actor_z"
    and fl: "flat = update_mlps env actor_z (map ((!) (all_actors s)) xs)"
    by blast
  have e1: "evo (state_dict_of env (map ((!) (all_actors s)) (replicated_keys env init s)))
             (Some (state_dict_of env (map ((!) (all_actors s)) ?ys)))
             (map_option (\<lambda>_. crossover_call env) (crossover_op s))
             (map_option (\<lambda>_. mutation_call env) (mutation_op s)) = Inr actor_z"
    using ev unfolding rk ys .
  have c1: "flat = update_mlps env actor_z (map ((!) (all_actors s)) (replicated_keys env init s))"
    using fl unfolding rk .
  have f1: "int (length flat) = ?b * ?m"
    using lenflat lenxs intlen by simp
  have s1: "\<forall>i < length (set_list env).
               eval_cache s' ! (set_list env ! i) = take (nat ?m) (drop (i * nat ?m) flat)
             \<and> int (length (eval_cache s' ! (set_list env ! i))) = ?m"
    using slots by blast
  show ?thesis
  proof (intro conjI)
    show "free_policy_keys s' = free_policy_keys s - set (choice_x env)"
      using free setxs by simp
    show "int (card (set (choice_x env))) = ?b" by (rule card)
    show "distinct (set_list env)" by (rule dsl)
    show "set (set_list env) = set (choice_x env)" by (rule ssl)
    show "replicated_keys env init s = concat (map (replicate (nat ?m)) (choice_x env))"
      using rk xs by simp
    show "\<exists>actor_z children.
           evo (state_dict_of env (map ((!) (all_actors s)) (replicated_keys env init s)))
             (Some (state_dict_of env (map ((!) (all_actors s)) ?ys)))
             (map_option (\<lambda>_. crossover_call env) (crossover_op s))
             (map_option (\<lambda>_. mutation_call env) (mutation_op s)) = Inr actor_z
         \<and> children
             = update_mlps env actor_z (map ((!) (all_actors s)) (replicated_keys env init s))
         \<and> int (length children) = ?b * ?m
         \<and> (\<forall>i < length (set_list env).
               eval_cache s' ! (set_list env ! i)
                 = take (nat ?m) (drop (i * nat ?m) children)
             \<and> int (length (eval_cache s' ! (set_list env ! i))) = ?m)"
      using e1 c1 f1 s1 by (intro exI [of _ actor_z] exI [of _ flat] conjI)
    show "eval_in_queue s' = eval_in_queue s @ [set_list env]" by (rule queue)
    show "queued_for_eval s' = queued_for_eval s + ?b * ?m"
      using q intlen by simp
    show "signals s' = signals s @ [To_evaluate (object_id s) (init_mode s)]" by (rule sig)
  qed
qed

theorem evolve_batch_round_witness:
  "batch_size_of (cfg (projr bootstrap_op)) True = 8
   \<and> mutations_per_policy (cfg (projr bootstrap_op)) = 2
   \<and> free_policy_keys (projr (evolve_batch bootstrap_env True (projr bootstrap_op)))
       = free_policy_keys (projr bootstrap_op) - set (choice_x bootstrap_env)
   \<and> queued_for_eval (projr (evolve_batch bootstrap_env True (projr bootstrap_op)))
       = queued_for_eval (projr bootstrap_op) + 8 * 2
   \<and> eval_in_queue (projr (evolve_batch bootstrap_env True (projr bootstrap_op)))
       = eval_in_queue (projr bootstrap_op) @ [set_list bootstrap_env]
   \<and> signals (projr (evolve_batch bootstrap_env True (projr bootstrap_op)))
       = signals (projr bootstrap_op)
           @ [To_evaluate (object_id (projr bootstrap_op)) (init_mode (projr bootstrap_op))]
   \<and> set_list bootstrap_env ! 0 = 1
   \<and> choice_x bootstrap_env ! 0 = 3 \<and> choice_y bootstrap_env ! 0 = 8
   \<and> all_actors (projr bootstrap_op) ! 3 = 3 \<and> all_actors (projr bootstrap_op) ! 8 = 8
   \<and> eval_cache (projr bootstrap_op) ! 1 = [0, 0]
   \<and> eval_cache (projr (evolve_batch bootstrap_env True (projr bootstrap_op))) ! 1
       = [11 / 2, 11 / 2]"
proof -
  let ?s = "projr bootstrap_op"
  let ?s' = "projr (evolve_batch bootstrap_env True ?s)"
  let ?kids = "[11 / 2, 11 / 2, 5, 5, 11 / 2, 11 / 2, 9, 9, 11 / 2, 11 / 2, 20, 20, 26, 26,
                31 / 2, 31 / 2] :: real list"
  have "\<not> isl (evolve_batch bootstrap_env True ?s)" by code_simp
  then have ok: "evolve_batch bootstrap_env True ?s = Inr ?s'" by simp
  have enough: "batch_size_of (cfg ?s) True \<le> int (card (free_keys ?s True))" by code_simp
  have "crossover_op ?s = Some M_iso_dd" by code_simp
  then have stage: "crossover_op ?s \<noteq> None \<or> mutation_op ?s \<noteq> None" by simp
  have cx: "valid_choice (free_keys ?s True) (batch_size_of (cfg ?s) True) (choice_x bootstrap_env)"
    by code_simp
  have sl: "valid_set_list (replicated_keys bootstrap_env True ?s) (set_list bootstrap_env)"
    by code_simp
  have depth: "list_all (\<lambda>row. int (length row) = mutations_per_policy (cfg ?s)) (eval_cache ?s)"
    by code_simp
  have upd: "length (update_mlps bootstrap_env sd ps) = length ps" for sd ps
    by (simp add: bootstrap_env_def env_of_def unstack_params_length)
  note round = evolve_batch_round [OF ok enough stage cx sl depth upd]
  have b: "batch_size_of (cfg ?s) True = 8" by code_simp
  have m: "mutations_per_policy (cfg ?s) = 2" by code_simp
  have q: "queued_for_eval ?s' = queued_for_eval ?s + 8 * 2"
    using round b m by simp
  have k0: "set_list bootstrap_env ! 0 = 1" by code_simp
  have pos: "0 < length (set_list bootstrap_env)" by code_simp
  have inputs: "choice_x bootstrap_env ! 0 = 3 \<and> choice_y bootstrap_env ! 0 = 8
     \<and> all_actors ?s ! 3 = 3 \<and> all_actors ?s ! 8 = 8 \<and> eval_cache ?s ! 1 = [0, 0]"
    by code_simp
  have kids: "(case evo (state_dict_of bootstrap_env
                   (map ((!) (all_actors ?s)) (replicated_keys bootstrap_env True ?s)))
             (Some (state_dict_of bootstrap_env (map ((!) (all_actors ?s))
                (if crossover_op ?s = None then []
                 else concat (map (replicate (nat (mutations_per_policy (cfg ?s))))
                        (choice_y bootstrap_env))))))
             (map_option (\<lambda>_. crossover_call bootstrap_env) (crossover_op ?s))
             (map_option (\<lambda>_. mutation_call bootstrap_env) (mutation_op ?s)) of
          Inl e \<Rightarrow> []
        | Inr actor_z \<Rightarrow> update_mlps bootstrap_env actor_z
            (map ((!) (all_actors ?s)) (replicated_keys bootstrap_env True ?s))) = ?kids"
    by code_simp
  from round obtain actor_z children where
    ev: "evo (state_dict_of bootstrap_env
                   (map ((!) (all_actors ?s)) (replicated_keys bootstrap_env True ?s)))
             (Some (state_dict_of bootstrap_env (map ((!) (all_actors ?s))
                (if crossover_op ?s = None then []
                 else concat (map (replicate (nat (mutations_per_policy (cfg ?s))))
                        (choice_y bootstrap_env))))))
             (map_option (\<lambda>_. crossover_call bootstrap_env) (crossover_op ?s))
             (map_option (\<lambda>_. mutation_call bootstrap_env) (mutation_op ?s)) = Inr actor_z"
    and ch: "children = update_mlps bootstrap_env actor_z
            (map ((!) (all_actors ?s)) (replicated_keys bootstrap_env True ?s))"
    and slots: "\<forall>i < length (set_list bootstrap_env).
               eval_cache ?s' ! (set_list bootstrap_env ! i)
                 = take (nat (mutations_per_policy (cfg ?s)))
                     (drop (i * nat (mutations_per_policy (cfg ?s))) children)
             \<and> int (length (eval_cache ?s' ! (set_list bootstrap_env ! i)))
                 = mutations_per_policy (cfg ?s)"
    by (elim exE conjE) (rule that; assumption)
  have "children = ?kids"
    using kids unfolding ev sum.case ch [symmetric] .
  moreover from slots pos have "eval_cache ?s' ! (set_list bootstrap_env ! 0)
      = take (nat (mutations_per_policy (cfg ?s)))
          (drop (0 * nat (mutations_per_policy (cfg ?s))) children)"
    by blast
  ultimately have cache1: "eval_cache ?s' ! 1 = [11 / 2, 11 / 2]"
    unfolding k0 m by simp
  show ?thesis
    using round b m q k0 inputs cache1 by blast
qed

text \<open>
  The claim as written, for every call that returns and is not skipped, fails for an
  operator with both stages disabled. The source draws keys only inside the branches
  of the two operators (lines 121 to 129). With six free keys, \<open>B = 2\<close> and two
  children per parent the round returns and is not skipped, yet no key leaves the free
  keys, the cache is unchanged, the empty list is put on the queue and
  \<open>queued_for_eval\<close> stays at 0, where \<open>B * mutations_per_policy\<close> is 4; the
  signal is emitted all the same.
\<close>

theorem evolve_batch_idle_round:
  "crossover_op (projr (small_op (config_of ''none'' ''none'' 2 10) [] [0..<6])) = None
   \<and> mutation_op (projr (small_op (config_of ''none'' ''none'' 2 10) [] [0..<6])) = None
   \<and> batch_size_of (cfg (projr (small_op (config_of ''none'' ''none'' 2 10) [] [0..<6]))) True = 2
   \<and> mutations_per_policy (cfg (projr (small_op (config_of ''none'' ''none'' 2 10) [] [0..<6])))
       = 2
   \<and> card (free_keys (projr (small_op (config_of ''none'' ''none'' 2 10) [] [0..<6])) True) = 6
   \<and> isl (evolve_batch idle_env True
        (projr (small_op (config_of ''none'' ''none'' 2 10) [] [0..<6]))) = False
   \<and> log (projr (evolve_batch idle_env True
        (projr (small_op (config_of ''none'' ''none'' 2 10) [] [0..<6]))))
       = [(WARN, Not_using_crossover), (WARN, Not_using_mutation),
          (DEBUG, Initializing_map), (DEBUG, Mutated_actors)]
   \<and> free_policy_keys (projr (evolve_batch idle_env True
        (projr (small_op (config_of ''none'' ''none'' 2 10) [] [0..<6]))))
       = free_policy_keys (projr (small_op (config_of ''none'' ''none'' 2 10) [] [0..<6]))
   \<and> eval_cache (projr (evolve_batch idle_env True
        (projr (small_op (config_of ''none'' ''none'' 2 10) [] [0..<6]))))
       = eval_cache (projr (small_op (config_of ''none'' ''none'' 2 10) [] [0..<6]))
   \<and> queued_for_eval (projr (small_op (config_of ''none'' ''none'' 2 10) [] [0..<6])) = 0
   \<and> queued_for_eval (projr (evolve_batch idle_env True
        (projr (small_op (config_of ''none'' ''none'' 2 10) [] [0..<6])))) = 0
   \<and> eval_in_queue (projr (evolve_batch idle_env True
        (projr (small_op (config_of ''none'' ''none'' 2 10) [] [0..<6])))) = [[]]
   \<and> signals (projr (evolve_batch idle_env True
        (projr (small_op (config_of ''none'' ''none'' 2 10) [] [0..<6]))))
       = [To_evaluate 7 True]"
  by code_simp

text \<open>
  Claim C2. When fewer free candidate keys than the batch size are available,
  \<^verbatim>\<open>evolve_batch\<close> returns without an exception: it logs its debug line and one
  warning, and the free keys, the cache, the queue, \<open>queued_for_eval\<close> and the emitted
  signals are unchanged.
\<close>

theorem evolve_batch_starvation_skip:
  assumes "int (card (free_keys s init)) < batch_size_of (cfg s) init"
  shows "\<exists>s'. evolve_batch env init s = Inr s'
     \<and> free_policy_keys s' = free_policy_keys s
     \<and> eval_cache s' = eval_cache s
     \<and> eval_in_queue s' = eval_in_queue s
     \<and> queued_for_eval s' = queued_for_eval s
     \<and> signals s' = signals s
     \<and> all_actors s' = all_actors s
     \<and> log s' = log s @ [(DEBUG, if init then Initializing_map else Mutating_from_map),
          (WARN, Not_enough_free (card (free_keys s init)) (batch_size_of (cfg s) init))]"
  using assms by (simp add: evolve_batch_def Let_def)

theorem evolve_batch_starvation_skip_witness:
  "int (card (free_keys
      (projr (small_op (config_of ''iso_dd'' ''gaussian_mutation'' 8 10) [] [0, 1, 2])) True))
     < batch_size_of
         (cfg (projr (small_op (config_of ''iso_dd'' ''gaussian_mutation'' 8 10) [] [0, 1, 2])))
         True
   \<and> queued_for_eval (projr (evolve_batch small_env True
        (projr (small_op (config_of ''iso_dd'' ''gaussian_mutation'' 8 10) [] [0, 1, 2]))))
     = queued_for_eval
         (projr (small_op (config_of ''iso_dd'' ''gaussian_mutation'' 8 10) [] [0, 1, 2]))
   \<and> free_policy_keys (projr (evolve_batch small_env True
        (projr (small_op (config_of ''iso_dd'' ''gaussian_mutation'' 8 10) [] [0, 1, 2]))))
     = free_policy_keys
         (projr (small_op (config_of ''iso_dd'' ''gaussian_mutation'' 8 10) [] [0, 1, 2]))
   \<and> signals (projr (evolve_batch small_env True
        (projr (small_op (config_of ''iso_dd'' ''gaussian_mutation'' 8 10) [] [0, 1, 2]))))
     = signals (projr (small_op (config_of ''iso_dd'' ''gaussian_mutation'' 8 10) [] [0, 1, 2]))"
proof -
  let ?s = "projr (small_op (config_of ''iso_dd'' ''gaussian_mutation'' 8 10) [] [0, 1, 2])"
  have few: "int (card (free_keys ?s True)) < batch_size_of (cfg ?s) True" by code_simp
  from evolve_batch_starvation_skip [OF few, of small_env]
  obtain s' where "evolve_batch small_env True ?s = Inr s'"
    and "free_policy_keys s' = free_policy_keys ?s"
    and "queued_for_eval s' = queued_for_eval ?s"
    and "signals s' = signals ?s"
    by blast
  then show ?thesis using few by simp
qed

text \<open>
  Claim C10. With a crossover operator enabled, a round that returns and is not skipped
  removes from the free keys exactly the drawn \<open>x\<close> keys: every key drawn as a \<open>y\<close>
  parent was free before the round and, unless it was also drawn as an \<open>x\<close> parent,
  is free after it; the pool the parents are read from is unchanged.
\<close>

theorem evolve_batch_keeps_y_parents:
  assumes ok: "evolve_batch env init s = Inr s'"
    and enough: "batch_size_of (cfg s) init \<le> int (card (free_keys s init))"
    and cross: "crossover_op s \<noteq> None"
    and cy: "valid_choice (free_keys s init) (batch_size_of (cfg s) init) (choice_y env)"
  shows "free_policy_keys s' = free_policy_keys s - set (choice_x env)
     \<and> (\<forall>k \<in> set (choice_y env). k \<notin> set (choice_x env) \<longrightarrow> k \<in> free_policy_keys s')
     \<and> (\<forall>k \<in> set (choice_y env). k \<in> free_policy_keys s)
     \<and> all_actors s' = all_actors s"
proof -
  let ?b = "batch_size_of (cfg s) init"
  let ?m = "mutations_per_policy (cfg s)"
  from ok enough obtain xs ys flat rows where
    dp: "draw_parents env s ?b = Inr (xs, ys)"
    and ea: "evolved_actors env s xs ys = Inr flat"
    and rs: "np_reshape flat ?m = Inr rows"
    and free: "free_policy_keys s' = free_policy_keys s - set xs"
    by (rule evolve_batch_Inr) blast
  from dp cross have xs: "xs = concat (map (replicate (nat ?m)) (choice_x env))"
    using draw_parents_Inr by blast
  from rs have mpos: "0 < ?m" using np_reshape_Inr by blast
  have setxs: "set xs = set (choice_x env)"
    using mpos by (simp add: xs set_concat_replicate)
  from cy have sub: "set (choice_y env) \<subseteq> free_policy_keys s"
    by (auto simp: valid_choice_def free_keys_def)
  have same: "all_actors s' = all_actors s"
    using ok by (auto simp: evolve_batch_def Let_def split: sum.splits if_splits prod.splits)
  show ?thesis using free setxs sub same by auto
qed

theorem evolve_batch_keeps_y_parents_witness:
  "1 \<in> set (choice_y small_env) \<and> 1 \<notin> set (choice_x small_env)
   \<and> 1 \<in> free_policy_keys (projr (evolve_batch small_env True
        (projr (small_op (config_of ''iso_dd'' ''gaussian_mutation'' 2 10) [] [0..<6]))))
   \<and> free_policy_keys (projr (evolve_batch small_env True
        (projr (small_op (config_of ''iso_dd'' ''gaussian_mutation'' 2 10) [] [0..<6]))))
     = free_policy_keys (projr (small_op (config_of ''iso_dd'' ''gaussian_mutation'' 2 10) []
          [0..<6])) - set (choice_x small_env)"
proof -
  let ?s = "projr (small_op (config_of ''iso_dd'' ''gaussian_mutation'' 2 10) [] [0..<6])"
  let ?s' = "projr (evolve_batch small_env True ?s)"
  have "\<not> isl (evolve_batch small_env True ?s)" by code_simp
  then have ok: "evolve_batch small_env True ?s = Inr ?s'" by simp
  have enough: "batch_size_of (cfg ?s) True \<le> int (card (free_keys ?s True))" by code_simp
  have "crossover_op ?s = Some M_iso_dd" by code_simp
  then have cross: "crossover_op ?s \<noteq> None" by simp
  have cy: "valid_choice (free_keys ?s True) (batch_size_of (cfg ?s) True) (choice_y small_env)"
    by code_simp
  note keep = evolve_batch_keeps_y_parents [OF ok enough cross cy]
  have y: "1 \<in> set (choice_y small_env)" by code_simp
  have x: "1 \<notin> set (choice_x small_env)" by code_simp
  show ?thesis using keep x y by blast
qed

text \<open>
  Claim C4 (the code departs from it). The signal of a round carries the field
  \<^verbatim>\<open>self.init_mode\<close>, which the constructor sets to \<^verbatim>\<open>True\<close> and nothing assigns
  afterwards; the mode \<^verbatim>\<open>maybe_mutate_new_batch\<close> computes is a local variable. With
  three elites and threshold 1 the timer runs a steady-state round, and the signal it
  emits carries \<^verbatim>\<open>True\<close>.
\<close>

theorem steady_state_round_emits_True:
  "(int (length (elites_map
       (projr (small_op (config_of ''iso_dd'' ''gaussian_mutation'' 2 1) three_elites [0..<6]))))
     \<le> random_init
         (cfg (projr (small_op (config_of ''iso_dd'' ''gaussian_mutation'' 2 1) three_elites
            [0..<6])))) = False
   \<and> signals (projr (maybe_mutate_new_batch small_env
        (projr (small_op (config_of ''iso_dd'' ''gaussian_mutation'' 2 1) three_elites [0..<6]))))
     = [To_evaluate 7 True]
   \<and> queued_for_eval (projr (maybe_mutate_new_batch small_env
        (projr (small_op (config_of ''iso_dd'' ''gaussian_mutation'' 2 1) three_elites [0..<6]))))
     = 4"
  by code_simp

subsection \<open>The in-flight counter\<close>

text \<open>
  Claim C7. Along any run of \<^verbatim>\<open>evolve_batch\<close> and \<^verbatim>\<open>on_eval_results\<close> calls that
  returns, \<open>queued_for_eval\<close> changes by the replicated keys submitted minus the agents
  reported: it is back at its value when the two totals are equal, lower when more
  agents were reported, and negative then when it started at zero.
\<close>

theorem counter_balance:
  assumes "run cs s = Inr s'"
  shows "queued_for_eval s' = queued_for_eval s + submitted cs s - reported cs
     \<and> (submitted cs s = reported cs \<longrightarrow> queued_for_eval s' = queued_for_eval s)
     \<and> (submitted cs s < reported cs \<longrightarrow> queued_for_eval s' < queued_for_eval s)
     \<and> (submitted cs s < reported cs \<and> queued_for_eval s = 0 \<longrightarrow> queued_for_eval s' < 0)"
  using run_queued [OF assms] by simp

theorem counter_balance_witness:
  "submitted [Evolve_batch small_env True, On_eval_results 3 [(), (), (), ()]]
      (projr (small_op (config_of ''iso_dd'' ''gaussian_mutation'' 2 10) [] [0..<6]))
     = reported [Evolve_batch small_env True, On_eval_results 3 [(), (), (), ()]]
   \<and> queued_for_eval (projr (run [Evolve_batch small_env True, On_eval_results 3 [(), (), (), ()]]
        (projr (small_op (config_of ''iso_dd'' ''gaussian_mutation'' 2 10) [] [0..<6]))))
     = queued_for_eval (projr (small_op (config_of ''iso_dd'' ''gaussian_mutation'' 2 10) []
          [0..<6]))
   \<and> submitted [Evolve_batch small_env True, On_eval_results 3 [(), (), (), (), ()]]
        (projr (small_op (config_of ''iso_dd'' ''gaussian_mutation'' 2 10) [] [0..<6]))
     < reported [Evolve_batch small_env True, On_eval_results 3 [(), (), (), (), ()]]
   \<and> queued_for_eval (projr (small_op (config_of ''iso_dd'' ''gaussian_mutation'' 2 10) []
        [0..<6])) = 0
   \<and> queued_for_eval (projr (run [Evolve_batch small_env True,
        On_eval_results 3 [(), (), (), (), ()]]
        (projr (small_op (config_of ''iso_dd'' ''gaussian_mutation'' 2 10) [] [0..<6])))) < 0"
proof -
  let ?s = "projr (small_op (config_of ''iso_dd'' ''gaussian_mutation'' 2 10) [] [0..<6])"
  let ?even = "[Evolve_batch small_env True, On_eval_results 3 [(), (), (), ()]]"
  let ?over = "[Evolve_batch small_env True, On_eval_results 3 [(), (), (), (), ()]]"
  have "\<not> isl (run ?even ?s)" by code_simp
  then have r1: "run ?even ?s = Inr (projr (run ?even ?s))" by simp
  have "\<not> isl (run ?over ?s)" by code_simp
  then have r2: "run ?over ?s = Inr (projr (run ?over ?s))" by simp
  have e1: "submitted ?even ?s = reported ?even" by code_simp
  have e2: "submitted ?over ?s < reported ?over" by code_simp
  have z: "queued_for_eval ?s = 0" by code_simp
  show ?thesis
    using counter_balance [OF r1] counter_balance [OF r2] e1 e2 z by blast
qed

text \<open>
  Claim C8, as amended. \<^verbatim>\<open>on_eval_results\<close> never logs a warning and never raises:
  it subtracts the number of agents from \<open>queued_for_eval\<close> and logs one debug record
  that carries the new value, negative or not. The warnings in the log are those that
  were there before the call.
\<close>

theorem on_eval_results_logs_debug_only:
  "log (on_eval_results oid agents s)
     = log s @ [(DEBUG, Received_agents (length agents) oid
                   (queued_for_eval s - int (length agents)))]
   \<and> filter (\<lambda>e. fst e = WARN) (log (on_eval_results oid agents s))
       = filter (\<lambda>e. fst e = WARN) (log s)
   \<and> queued_for_eval (on_eval_results oid agents s) = queued_for_eval s - int (length agents)"
  by (simp add: on_eval_results_def Let_def)

text \<open>
  The claim as written fails: one agent reported to a new operator drives the counter
  to \<open>-1\<close>, and the log holds the debug record only.
\<close>

theorem on_eval_results_negative_no_warning:
  "queued_for_eval (on_eval_results 3 [()] (projr bootstrap_op)) = - 1
   \<and> log (on_eval_results 3 [()] (projr bootstrap_op)) = [(DEBUG, Received_agents 1 3 (- 1))]"
  by (simp add: on_eval_results_def Let_def bootstrap_op_def VariationOperator_init_def
      resolve_op_def getattr_op_def config_of_def)

subsection \<open>Construction\<close>

text \<open>
  Claim C9 (the code departs from it). The names \<^verbatim>\<open>sbx\<close>, \<^verbatim>\<open>polynomial_mutation\<close>
  and \<^verbatim>\<open>uniform_mutation\<close> are in the lists of recognized names, and the class has no
  method of these names: constructing the operator with one of them raises
  \<^verbatim>\<open>AttributeError\<close>.
\<close>

theorem init_recognized_but_undefined_raises:
  "VariationOperator_init (c\<lparr>cfg_crossover_op := ''sbx''\<rparr>) actors elites cache queue free oid h
     = Inl (AttributeError ''sbx'')
   \<and> VariationOperator_init
       (c\<lparr>cfg_crossover_op := ''iso_dd'', cfg_mutation_op := ''polynomial_mutation''\<rparr>)
       actors elites cache queue free oid h
     = Inl (AttributeError ''polynomial_mutation'')
   \<and> VariationOperator_init
       (c\<lparr>cfg_crossover_op := ''iso_dd'', cfg_mutation_op := ''uniform_mutation''\<rparr>)
       actors elites cache queue free oid h
     = Inl (AttributeError ''uniform_mutation'')"
  by (simp add: VariationOperator_init_def resolve_op_def getattr_op_def)

subsection \<open>The pipeline and the operators\<close>

text \<open>
  Claim C3 (the code departs from it). The test \<^verbatim>\<open>'weight' or 'bias' in tensor\<close>
  holds for every name, so \<^verbatim>\<open>batch_mutation\<close> and \<^verbatim>\<open>batch_crossover\<close> apply the
  operator to every tensor of the state dict. The tensor \<^verbatim>\<open>_action_log_std\<close>, whose
  name holds neither \<^verbatim>\<open>weight\<close> nor \<^verbatim>\<open>bias\<close>, is 0 in the parent and a tenth in the
  child, under mutation alone and under crossover alone.
\<close>

theorem evo_changes_every_tensor:
  "py_in ''weight'' ''_action_log_std'' = False
   \<and> py_in ''bias'' ''_action_log_std'' = False
   \<and> map_of ant_state_dict ''_action_log_std'' = Some \<lparr>shape = [1], data = [0]\<rparr>
   \<and> evo ant_state_dict None None (Some always_mutate)
     = Inr [(''layers.0.weight'', \<lparr>shape = [1, 2], data = [11 / 10, 21 / 10]\<rparr>),
            (''layers.0.bias'', \<lparr>shape = [1], data = [31 / 10]\<rparr>),
            (''_action_log_std'', \<lparr>shape = [1], data = [1 / 10]\<rparr>)]
   \<and> evo ant_state_dict (Some ant_state_dict)
       (Some (iso_dd default_hyperparams (\<lambda>_. 20) (1 / 2))) None
     = Inr [(''layers.0.weight'', \<lparr>shape = [1, 2], data = [11 / 10, 21 / 10]\<rparr>),
            (''layers.0.bias'', \<lparr>shape = [1], data = [31 / 10]\<rparr>),
            (''_action_log_std'', \<lparr>shape = [1], data = [1 / 10]\<rparr>)]"
  by code_simp

text \<open>
  Claim C5, as amended. For parents of one shape \<^verbatim>\<open>iso_dd\<close> returns a tensor of
  that shape. Its element \<open>i\<close> is computed from
  \<open>x i + iso_sigma * e i + (line_sigma * u) * (y i - x i)\<close>, where \<open>e i\<close> is the
  standard normal sample of element \<open>i\<close>, so that the first addend is a draw from
  \<open>N(0, iso_sigma\<^sup>2)\<close>, and \<open>u\<close> is the one standard normal sample of the call, so
  that the coefficient of the line is one draw from \<open>N(0, line_sigma\<^sup>2)\<close> applied to
  every element. With neither bound configured the element is this value. With both
  bounds configured, and not both zero, it is this value clamped to
  \<open>[min_gene, max_gene]\<close>, and it lies between the bounds when the lower one is at
  most the upper one. A configuration with one bound is not part of the statement.
\<close>

theorem iso_dd_line_and_clamp:
  assumes sh: "shape x = shape y" and wx: "wf_tensor x" and wy: "wf_tensor y"
  shows "\<exists>z. iso_dd h eps_a eps_b x y = Inr z
     \<and> shape z = shape x \<and> length (data z) = length (data x)
     \<and> (min_gene h = Py_False \<and> max_gene h = Py_False \<longrightarrow>
        (\<forall>i < length (data x).
           data z ! i = data x ! i + iso_sigma h * eps_a i
                          + line_sigma h * eps_b * (data y ! i - data x ! i)))
     \<and> (\<forall>lo hi. min_gene h = Py_float lo \<and> max_gene h = Py_float hi \<and> (lo \<noteq> 0 \<or> hi \<noteq> 0) \<longrightarrow>
          (\<forall>i < length (data x).
             data z ! i = min (max (data x ! i + iso_sigma h * eps_a i
                                      + line_sigma h * eps_b * (data y ! i - data x ! i)) lo) hi)
        \<and> (lo \<le> hi \<longrightarrow> (\<forall>i < length (data x). lo \<le> data z ! i \<and> data z ! i \<le> hi)))"
proof -
  have len: "length (data y) = length (data x)"
    using sh wx wy by (simp add: wf_tensor_def)
  let ?v = "\<lambda>i. data x ! i + iso_sigma h * eps_a i
                  + line_sigma h * eps_b * (data y ! i - data x ! i)"
  define line where "line = map (\<lambda>(xv, av, yv). xv + av
                       + np_random_normal 0 (line_sigma h) eps_b * (yv - xv))
                 (zip (data x) (zip (torch_normal 0 (iso_sigma h) eps_a (numel x)) (data y)))"
  define z where "z = (if \<not> truthy (max_gene h) \<and> \<not> truthy (min_gene h)
                       then x\<lparr>data := line\<rparr>
                       else torch_clamp (x\<lparr>data := line\<rparr>) (min_gene h) (max_gene h))"
  have l1: "length line = length (data x)"
    using len by (simp add: line_def numel_def torch_normal_def)
  have n1: "line ! i = ?v i" if "i < length (data x)" for i
    using that len by (simp add: line_def numel_def torch_normal_def np_random_normal_def)
  have res: "iso_dd h eps_a eps_b x y = Inr z"
    using sh by (simp add: iso_dd_def Let_def z_def line_def)
  have zs: "shape z = shape x"
    by (simp add: z_def torch_clamp_def)
  have zl: "length (data z) = length (data x)"
    using l1 by (simp add: z_def torch_clamp_def)
  have none: "\<forall>i < length (data x). data z ! i = ?v i"
    if "min_gene h = Py_False \<and> max_gene h = Py_False"
    using that n1 by (simp add: z_def)
  have both: "(\<forall>i < length (data x). data z ! i = min (max (?v i) lo) hi)
      \<and> (lo \<le> hi \<longrightarrow> (\<forall>i < length (data x). lo \<le> data z ! i \<and> data z ! i \<le> hi))"
    if b: "min_gene h = Py_float lo \<and> max_gene h = Py_float hi \<and> (lo \<noteq> 0 \<or> hi \<noteq> 0)"
    for lo hi
  proof -
    from b have t: "\<not> (\<not> truthy (max_gene h) \<and> \<not> truthy (min_gene h))" by auto
    have zc: "z = torch_clamp (x\<lparr>data := line\<rparr>) (min_gene h) (max_gene h)"
      using t unfolding z_def by (rule if_not_P)
    have v: "data z ! i = min (max (?v i) lo) hi" if i: "i < length (data x)" for i
    proof -
      have "data z ! i = min (max (line ! i) lo) hi"
        using b i l1 by (simp add: zc torch_clamp_def)
      then show ?thesis using n1 [OF i] by simp
    qed
    have w: "lo \<le> data z ! i \<and> data z ! i \<le> hi"
      if i: "i < length (data x)" and le: "lo \<le> hi" for i
      using v [OF i] le by simp
    show ?thesis using v w by blast
  qed
  show ?thesis
  proof (intro exI conjI)
    show "iso_dd h eps_a eps_b x y = Inr z" by (rule res)
    show "shape z = shape x" by (rule zs)
    show "length (data z) = length (data x)" by (rule zl)
    show "min_gene h = Py_False \<and> max_gene h = Py_False \<longrightarrow>
        (\<forall>i < length (data x). data z ! i = ?v i)"
      using none by blast
    show "\<forall>lo hi. min_gene h = Py_float lo \<and> max_gene h = Py_float hi
            \<and> (lo \<noteq> 0 \<or> hi \<noteq> 0) \<longrightarrow>
          (\<forall>i < length (data x). data z ! i = min (max (?v i) lo) hi)
        \<and> (lo \<le> hi \<longrightarrow> (\<forall>i < length (data x). lo \<le> data z ! i \<and> data z ! i \<le> hi))"
      using both by blast
  qed
qed

theorem iso_dd_line_and_clamp_witness:
  "shape \<lparr>shape = [2], data = [0, 4]\<rparr> = shape \<lparr>shape = [2], data = [2, 0]\<rparr>
   \<and> wf_tensor \<lparr>shape = [2], data = [0, 4]\<rparr> \<and> wf_tensor \<lparr>shape = [2], data = [2, 0]\<rparr>
   \<and> min_gene unit_hyperparams = Py_False \<and> max_gene unit_hyperparams = Py_False
   \<and> iso_sigma unit_hyperparams = 1 \<and> line_sigma unit_hyperparams = 1
   \<and> (\<exists>z. iso_dd unit_hyperparams real (1 / 2)
             \<lparr>shape = [2], data = [0, 4]\<rparr> \<lparr>shape = [2], data = [2, 0]\<rparr> = Inr z
          \<and> shape z = [2] \<and> length (data z) = 2
          \<and> data z ! 0 = 1 \<and> data z ! 1 = 3)
   \<and> min_gene clamped_hyperparams = Py_float (- 1) \<and> max_gene clamped_hyperparams = Py_float 1
   \<and> iso_sigma clamped_hyperparams = 1 / 200 \<and> line_sigma clamped_hyperparams = 1 / 20
   \<and> (\<exists>z. iso_dd clamped_hyperparams (\<lambda>_. 200) 10
             \<lparr>shape = [2], data = [0, 4]\<rparr> \<lparr>shape = [2], data = [2, 0]\<rparr> = Inr z
          \<and> data z ! 0 = 1 \<and> data z ! 1 = 1
          \<and> - 1 \<le> data z ! 1 \<and> data z ! 1 \<le> 1)"
proof -
  let ?x = "\<lparr>shape = [2], data = [0, 4]\<rparr>"
  let ?y = "\<lparr>shape = [2], data = [2, 0]\<rparr>"
  have sh: "shape ?x = shape ?y" by simp
  have wx: "wf_tensor ?x" by (simp add: wf_tensor_def)
  have wy: "wf_tensor ?y" by (simp add: wf_tensor_def)
  have u: "min_gene unit_hyperparams = Py_False" "max_gene unit_hyperparams = Py_False"
    "iso_sigma unit_hyperparams = 1" "line_sigma unit_hyperparams = 1"
    by (simp_all add: unit_hyperparams_def default_hyperparams_def)
  have c: "min_gene clamped_hyperparams = Py_float (- 1)"
    "max_gene clamped_hyperparams = Py_float 1"
    "iso_sigma clamped_hyperparams = 1 / 200" "line_sigma clamped_hyperparams = 1 / 20"
    by (simp_all add: clamped_hyperparams_def default_hyperparams_def)
  from iso_dd_line_and_clamp [OF sh wx wy, of unit_hyperparams real "1 / 2"]
  obtain z where z: "iso_dd unit_hyperparams real (1 / 2) ?x ?y = Inr z"
    and zs: "shape z = shape ?x" and zl: "length (data z) = length (data ?x)"
    and free: "min_gene unit_hyperparams = Py_False \<and> max_gene unit_hyperparams = Py_False \<longrightarrow>
        (\<forall>i < length (data ?x).
           data z ! i = data ?x ! i + iso_sigma unit_hyperparams * real i
                          + line_sigma unit_hyperparams * (1 / 2) * (data ?y ! i - data ?x ! i))"
    by (elim exE conjE) (rule that; assumption)
  from free u have all1: "\<forall>i < length (data ?x).
           data z ! i = data ?x ! i + iso_sigma unit_hyperparams * real i
                          + line_sigma unit_hyperparams * (1 / 2) * (data ?y ! i - data ?x ! i)"
    by simp
  from all1 [rule_format, of 0] u have z0: "data z ! 0 = 1" by simp
  from all1 [rule_format, of 1] u have z1: "data z ! 1 = 3" by simp
  have first: "\<exists>z. iso_dd unit_hyperparams real (1 / 2) ?x ?y = Inr z
          \<and> shape z = [2] \<and> length (data z) = 2 \<and> data z ! 0 = 1 \<and> data z ! 1 = 3"
    using z zs zl z0 z1 by simp
  from iso_dd_line_and_clamp [OF sh wx wy, of clamped_hyperparams "\<lambda>_. 200" 10]
  obtain w where w: "iso_dd clamped_hyperparams (\<lambda>_. 200) 10 ?x ?y = Inr w"
    and cl: "\<forall>lo hi. min_gene clamped_hyperparams = Py_float lo
          \<and> max_gene clamped_hyperparams = Py_float hi \<and> (lo \<noteq> 0 \<or> hi \<noteq> 0) \<longrightarrow>
          (\<forall>i < length (data ?x).
             data w ! i = min (max (data ?x ! i + iso_sigma clamped_hyperparams * 200
                  + line_sigma clamped_hyperparams * 10 * (data ?y ! i - data ?x ! i)) lo) hi)
        \<and> (lo \<le> hi \<longrightarrow> (\<forall>i < length (data ?x). lo \<le> data w ! i \<and> data w ! i \<le> hi))"
    by (elim exE conjE) (rule that; assumption)
  have pre: "min_gene clamped_hyperparams = Py_float (- 1)
          \<and> max_gene clamped_hyperparams = Py_float 1 \<and> ((- 1 :: real) \<noteq> 0 \<or> (1 :: real) \<noteq> 0)"
    using c by simp
  from cl [rule_format, OF pre]
  have vals: "\<forall>i < length (data ?x).
             data w ! i = min (max (data ?x ! i + iso_sigma clamped_hyperparams * 200
                  + line_sigma clamped_hyperparams * 10 * (data ?y ! i - data ?x ! i)) (- 1)) 1"
    and rng: "(- 1 :: real) \<le> 1 \<longrightarrow> (\<forall>i < length (data ?x). - 1 \<le> data w ! i \<and> data w ! i \<le> 1)"
    by blast+
  from vals [rule_format, of 0] c have w0: "data w ! 0 = 1" by simp
  from vals [rule_format, of 1] c have w1: "data w ! 1 = 1" by simp
  from rng have w1r: "- 1 \<le> data w ! 1 \<and> data w ! 1 \<le> 1" by simp
  have second: "\<exists>z. iso_dd clamped_hyperparams (\<lambda>_. 200) 10 ?x ?y = Inr z
          \<and> data z ! 0 = 1 \<and> data z ! 1 = 1 \<and> - 1 \<le> data z ! 1 \<and> data z ! 1 \<le> 1"
    using w w0 w1 w1r by blast
  show ?thesis using sh wx wy u c first second by simp
qed

text \<open>
  The claim as written fails in two ways. The result is clamped although one bound
  alone is configured: with the upper bound 1, the lower one left at \<^verbatim>\<open>False\<close>,
  both parents at 5 and the samples at 0, the operator returns 1. And the result is
  not clamped although both bounds are configured, when both are 0: the guard tests
  the truth values of the bounds, and 0 is falsy; the operator returns 5, outside
  \<open>[0, 0]\<close>.
\<close>

theorem iso_dd_clamps_with_one_bound:
  "min_gene max_only_hyperparams = Py_False
   \<and> max_gene max_only_hyperparams = Py_float 1
   \<and> iso_dd max_only_hyperparams (\<lambda>_. 0) 0
        \<lparr>shape = [1], data = [5]\<rparr> \<lparr>shape = [1], data = [5]\<rparr>
      = Inr \<lparr>shape = [1], data = [1]\<rparr>
   \<and> min_gene zero_bounds_hyperparams = Py_float 0
   \<and> max_gene zero_bounds_hyperparams = Py_float 0
   \<and> iso_dd zero_bounds_hyperparams (\<lambda>_. 0) 0
        \<lparr>shape = [1], data = [5]\<rparr> \<lparr>shape = [1], data = [5]\<rparr>
      = Inr \<lparr>shape = [1], data = [5]\<rparr>"
  by code_simp

text \<open>
  Claim C6, as amended. For a tensor of rank 1, 2 or 3 \<^verbatim>\<open>gaussian_mutation\<close>
  returns a tensor of the same shape. Element \<open>i\<close> is selected exactly when its own
  draw of \<^verbatim>\<open>rand_like\<close>, uniform on the interval from 0 to 1, is below
  \<^verbatim>\<open>mutation_rate\<close>: the elements are selected independently, each with probability
  \<^verbatim>\<open>mutation_rate\<close>. The \<open>k\<close>-th selected element, in row-major order, gets
  \<open>sigma\<close> times the standard normal sample \<open>k\<close> added, a draw from
  \<open>N(0, sigma\<^sup>2)\<close>, and the result depends on the samples through the first \<open>n\<close>
  of them only, \<open>n\<close> the number of selected elements. With neither bound configured
  the selected elements hold these sums and the other elements their old values; with
  \<^verbatim>\<open>mutation_rate = 0\<close> the output is then the input. With both bounds configured,
  and not both zero, every element, selected or not, is clamped to
  \<open>[min_gene, max_gene]\<close> after that. A configuration with one bound is not part of
  the statement.
\<close>

theorem gaussian_mutation_selected_and_clamp:
  assumes rank: "length (shape x) = 1 \<or> length (shape x) = 2 \<or> length (shape x) = 3"
  shows "\<exists>y. gaussian_mutation h rand eps x = Inr y
     \<and> shape y = shape x \<and> length (data y) = length (data x)
     \<and> (min_gene h = Py_False \<and> max_gene h = Py_False \<longrightarrow>
        (\<forall>i < length (data x).
           data y ! i =
             (if rand i < mutation_rate h
              then data x ! i
                     + sigma h * eps (length (filter (\<lambda>j. rand j < mutation_rate h) [0..<i]))
              else data x ! i)))
     \<and> (\<forall>lo hi. min_gene h = Py_float lo \<and> max_gene h = Py_float hi \<and> (lo \<noteq> 0 \<or> hi \<noteq> 0) \<longrightarrow>
        (\<forall>i < length (data x).
           data y ! i =
             min (max (if rand i < mutation_rate h
                       then data x ! i
                              + sigma h * eps (length (filter (\<lambda>j. rand j < mutation_rate h) [0..<i]))
                       else data x ! i) lo) hi))
     \<and> (\<forall>eps'.
          (\<forall>j < length (filter (\<lambda>i. rand i < mutation_rate h) [0..<length (data x)]).
             eps' j = eps j) \<longrightarrow>
          gaussian_mutation h rand eps' x = Inr y)
     \<and> (mutation_rate h = 0 \<and> (\<forall>i. 0 \<le> rand i)
          \<and> min_gene h = Py_False \<and> max_gene h = Py_False \<longrightarrow> y = x)"
proof -
  let ?P = "\<lambda>i. rand i < mutation_rate h"
  let ?idx = "filter ?P [0..<length (data x)]"
  let ?M = "\<lambda>i. if ?P i then data x ! i + sigma h * eps (length (filter ?P [0..<i]))
                   else data x ! i"
  define mutated where "mutated = (\<lambda>e. x\<lparr>data :=
      index_add (data x) ?idx (map (\<lambda>j. sigma h * e j) [0..<length ?idx])\<rparr>)"
  define res where "res = (\<lambda>e. if truthy (max_gene h) \<or> truthy (min_gene h)
         then torch_clamp (mutated e) (min_gene h) (max_gene h) else mutated e)"
  have run: "gaussian_mutation h rand e x = Inr (res e)" for e
    using gaussian_mutation_unclamped [OF rank, of h rand e]
    by (simp add: Let_def res_def mutated_def)
  have ml: "length (data (mutated e)) = length (data x)" for e
    by (simp add: mutated_def index_add_length)
  have nth: "data (mutated eps) ! i = ?M i" if "i < length (data x)" for i
    using index_add_nth [OF that, of ?P "\<lambda>j. sigma h * eps j"] by (simp add: mutated_def)
  have sh: "shape (res eps) = shape x"
    by (simp add: res_def mutated_def torch_clamp_def)
  have len: "length (data (res eps)) = length (data x)"
    using ml [of eps] by (simp add: res_def torch_clamp_def)
  have none: "\<forall>i < length (data x). data (res eps) ! i = ?M i"
    if "min_gene h = Py_False \<and> max_gene h = Py_False"
    using that nth by (simp add: res_def)
  have both: "\<forall>i < length (data x). data (res eps) ! i = min (max (?M i) lo) hi"
    if b: "min_gene h = Py_float lo \<and> max_gene h = Py_float hi \<and> (lo \<noteq> 0 \<or> hi \<noteq> 0)"
    for lo hi
  proof (intro allI impI)
    fix i assume i: "i < length (data x)"
    from b have t: "truthy (max_gene h) \<or> truthy (min_gene h)" by auto
    have rc: "res eps = torch_clamp (mutated eps) (min_gene h) (max_gene h)"
      using t unfolding res_def by (rule if_P)
    have "data (res eps) ! i = min (max (data (mutated eps) ! i) lo) hi"
      using b i ml [of eps] by (simp add: rc torch_clamp_def)
    then show "data (res eps) ! i = min (max (?M i) lo) hi"
      using nth [OF i] by simp
  qed
  have samples: "gaussian_mutation h rand eps' x = Inr (res eps)"
    if "\<forall>j < length ?idx. eps' j = eps j" for eps'
  proof -
    have meq: "map (\<lambda>j. sigma h * eps' j) [0..<length ?idx]
        = map (\<lambda>j. sigma h * eps j) [0..<length ?idx]"
      using that by simp
    have "mutated eps' = mutated eps" unfolding mutated_def meq by (rule refl)
    then have "res eps' = res eps" by (simp add: res_def)
    then show ?thesis using run [of eps'] by simp
  qed
  have zero: "res eps = x"
    if z: "mutation_rate h = 0 \<and> (\<forall>i. 0 \<le> rand i)
          \<and> min_gene h = Py_False \<and> max_gene h = Py_False"
  proof -
    have "?idx = []" using z by (simp add: filter_empty_conv not_less)
    then have "mutated eps = x" by (simp add: mutated_def index_add_def)
    then show ?thesis using z by (simp add: res_def)
  qed
  show ?thesis
  proof (intro exI conjI)
    show "gaussian_mutation h rand eps x = Inr (res eps)" by (rule run)
    show "shape (res eps) = shape x" by (rule sh)
    show "length (data (res eps)) = length (data x)" by (rule len)
    show "min_gene h = Py_False \<and> max_gene h = Py_False \<longrightarrow>
        (\<forall>i < length (data x). data (res eps) ! i = ?M i)"
      using none by blast
    show "\<forall>lo hi. min_gene h = Py_float lo \<and> max_gene h = Py_float hi
            \<and> (lo \<noteq> 0 \<or> hi \<noteq> 0) \<longrightarrow>
        (\<forall>i < length (data x). data (res eps) ! i = min (max (?M i) lo) hi)"
      using both by blast
    show "\<forall>eps'. (\<forall>j < length ?idx. eps' j = eps j) \<longrightarrow>
          gaussian_mutation h rand eps' x = Inr (res eps)"
      using samples by blast
    show "mutation_rate h = 0 \<and> (\<forall>i. 0 \<le> rand i)
          \<and> min_gene h = Py_False \<and> max_gene h = Py_False \<longrightarrow> res eps = x"
      using zero by blast
  qed
qed

theorem gaussian_mutation_selected_and_clamp_witness:
  "length (shape \<lparr>shape = [2, 2], data = [1, 2, 3, 4]\<rparr>) = 2
   \<and> min_gene (unit_hyperparams\<lparr>mutation_rate := 1 / 2\<rparr>) = Py_False
   \<and> max_gene (unit_hyperparams\<lparr>mutation_rate := 1 / 2\<rparr>) = Py_False
   \<and> (\<exists>y. gaussian_mutation (unit_hyperparams\<lparr>mutation_rate := 1 / 2\<rparr>) even_rand
               (\<lambda>j. 10 + real j) \<lparr>shape = [2, 2], data = [1, 2, 3, 4]\<rparr> = Inr y
          \<and> data y ! 0 = 11 \<and> data y ! 1 = 2 \<and> data y ! 2 = 14 \<and> data y ! 3 = 4
          \<and> gaussian_mutation (unit_hyperparams\<lparr>mutation_rate := 1 / 2\<rparr>) even_rand
               (\<lambda>j. if j < 2 then 10 + real j else 0)
               \<lparr>shape = [2, 2], data = [1, 2, 3, 4]\<rparr> = Inr y)
   \<and> gaussian_mutation (unit_hyperparams\<lparr>mutation_rate := 1 / 2\<rparr>) even_rand
        (\<lambda>j. 10 + real j) \<lparr>shape = [2, 2], data = [1, 2, 3, 4]\<rparr>
      = Inr \<lparr>shape = [2, 2], data = [11, 2, 14, 4]\<rparr>
   \<and> min_gene (clamped_hyperparams\<lparr>mutation_rate := 1 / 2\<rparr>) = Py_float (- 1)
   \<and> max_gene (clamped_hyperparams\<lparr>mutation_rate := 1 / 2\<rparr>) = Py_float 1
   \<and> sigma clamped_hyperparams = 1 / 10
   \<and> (\<exists>y. gaussian_mutation (clamped_hyperparams\<lparr>mutation_rate := 1 / 2\<rparr>) even_rand
               (\<lambda>_. - 30) \<lparr>shape = [2, 2], data = [1, 2, 3, 4]\<rparr> = Inr y
          \<and> data y ! 0 = - 1 \<and> data y ! 1 = 1)
   \<and> mutation_rate (default_hyperparams\<lparr>mutation_rate := 0\<rparr>) = 0
   \<and> gaussian_mutation (default_hyperparams\<lparr>mutation_rate := 0\<rparr>) even_rand (\<lambda>_. 10)
        \<lparr>shape = [2, 2], data = [1, 2, 3, 4]\<rparr>
      = Inr \<lparr>shape = [2, 2], data = [1, 2, 3, 4]\<rparr>"
proof -
  let ?x = "\<lparr>shape = [2, 2], data = [1, 2, 3, 4]\<rparr>"
  let ?h = "unit_hyperparams\<lparr>mutation_rate := 1 / 2\<rparr>"
  let ?hc = "clamped_hyperparams\<lparr>mutation_rate := 1 / 2\<rparr>"
  let ?hz = "default_hyperparams\<lparr>mutation_rate := 0\<rparr>"
  let ?e = "\<lambda>j. 10 + real j"
  let ?e' = "\<lambda>j. if j < 2 then 10 + real j else (0 :: real)"
  have r2: "length (shape ?x) = 2" by simp
  have rank: "length (shape ?x) = 1 \<or> length (shape ?x) = 2 \<or> length (shape ?x) = 3"
    by simp
  have u: "min_gene ?h = Py_False" "max_gene ?h = Py_False" "sigma ?h = 1"
    "mutation_rate ?h = 1 / 2"
    by (simp_all add: unit_hyperparams_def default_hyperparams_def)
  have c: "min_gene ?hc = Py_float (- 1)" "max_gene ?hc = Py_float 1" "sigma ?hc = 1 / 10"
    "mutation_rate ?hc = 1 / 2" "sigma clamped_hyperparams = 1 / 10"
    by (simp_all add: clamped_hyperparams_def default_hyperparams_def)
  have d: "min_gene ?hz = Py_False" "max_gene ?hz = Py_False" "mutation_rate ?hz = 0"
    by (simp_all add: default_hyperparams_def)
  have lenx: "length (data ?x) = 4" by simp
  have f2: "length (filter (\<lambda>j. even_rand j < 1 / 2) [0..<2]) = 1" by code_simp
  have f4: "length (filter (\<lambda>j. even_rand j < 1 / 2) [0..<4]) = 2" by code_simp
  have ev: "even_rand 0 < 1 / 2" "\<not> even_rand 1 < 1 / 2" "even_rand 2 < 1 / 2"
    "\<not> even_rand 3 < 1 / 2"
    by (simp_all add: even_rand_def)
  from gaussian_mutation_selected_and_clamp [OF rank, of ?h even_rand ?e]
  obtain y where y: "gaussian_mutation ?h even_rand ?e ?x = Inr y"
    and free: "min_gene ?h = Py_False \<and> max_gene ?h = Py_False \<longrightarrow>
        (\<forall>i < length (data ?x).
           data y ! i =
             (if even_rand i < mutation_rate ?h
              then data ?x ! i
                     + sigma ?h * ?e (length (filter (\<lambda>j. even_rand j < mutation_rate ?h) [0..<i]))
              else data ?x ! i))"
    and only: "\<forall>eps'.
          (\<forall>j < length (filter (\<lambda>i. even_rand i < mutation_rate ?h) [0..<length (data ?x)]).
             eps' j = ?e j) \<longrightarrow>
          gaussian_mutation ?h even_rand eps' ?x = Inr y"
    by (elim exE conjE) (rule that; assumption)
  from free u(1,2) have all1: "\<forall>i < length (data ?x).
           data y ! i =
             (if even_rand i < mutation_rate ?h
              then data ?x ! i
                     + sigma ?h * ?e (length (filter (\<lambda>j. even_rand j < mutation_rate ?h) [0..<i]))
              else data ?x ! i)"
    by blast
  have y0: "data y ! 0 = 11" using all1 [rule_format, of 0] ev by (simp add: u)
  have y1: "data y ! 1 = 2" using all1 [rule_format, of 1] ev by (simp add: u)
  have y2: "data y ! 2 = 14" using all1 [rule_format, of 2] ev f2 by (simp add: u)
  have y3: "data y ! 3 = 4" using all1 [rule_format, of 3] ev by (simp add: u)
  have agree: "\<forall>j < length (filter (\<lambda>i. even_rand i < mutation_rate ?h) [0..<length (data ?x)]).
             ?e' j = ?e j"
    unfolding u(4) lenx f4 by simp
  note y' = only [THEN spec, of ?e', THEN mp, OF agree]
  have first: "\<exists>y. gaussian_mutation ?h even_rand ?e ?x = Inr y
          \<and> data y ! 0 = 11 \<and> data y ! 1 = 2 \<and> data y ! 2 = 14 \<and> data y ! 3 = 4
          \<and> gaussian_mutation ?h even_rand ?e' ?x = Inr y"
    using y y0 y1 y2 y3 y' by blast
  have whole: "gaussian_mutation ?h even_rand ?e ?x = Inr \<lparr>shape = [2, 2], data = [11, 2, 14, 4]\<rparr>"
    by code_simp
  from gaussian_mutation_selected_and_clamp [OF rank, of ?hc even_rand "\<lambda>_. - 30"]
  obtain w where w: "gaussian_mutation ?hc even_rand (\<lambda>_. - 30) ?x = Inr w"
    and cl: "\<forall>lo hi. min_gene ?hc = Py_float lo \<and> max_gene ?hc = Py_float hi
            \<and> (lo \<noteq> 0 \<or> hi \<noteq> 0) \<longrightarrow>
        (\<forall>i < length (data ?x).
           data w ! i =
             min (max (if even_rand i < mutation_rate ?hc
                       then data ?x ! i + sigma ?hc * - 30
                       else data ?x ! i) lo) hi)"
    by (elim exE conjE) (rule that; assumption)
  have pre: "min_gene ?hc = Py_float (- 1) \<and> max_gene ?hc = Py_float 1
      \<and> ((- 1 :: real) \<noteq> 0 \<or> (1 :: real) \<noteq> 0)"
    using c by simp
  note vals = cl [rule_format, OF pre]
  have w0: "data w ! 0 = - 1" using vals [of 0] ev by (simp add: c)
  have w1: "data w ! 1 = 1" using vals [of 1] ev by (simp add: c)
  have second: "\<exists>y. gaussian_mutation ?hc even_rand (\<lambda>_. - 30) ?x = Inr y
          \<and> data y ! 0 = - 1 \<and> data y ! 1 = 1"
    using w w0 w1 by blast
  have pos: "\<forall>i. 0 \<le> even_rand i" by (simp add: even_rand_def)
  from gaussian_mutation_selected_and_clamp [OF rank, of ?hz even_rand "\<lambda>_. 10"]
  obtain v where v: "gaussian_mutation ?hz even_rand (\<lambda>_. 10) ?x = Inr v"
    and same: "mutation_rate ?hz = 0 \<and> (\<forall>i. 0 \<le> even_rand i)
          \<and> min_gene ?hz = Py_False \<and> max_gene ?hz = Py_False \<longrightarrow> v = ?x"
    by (elim exE conjE) (rule that; assumption)
  from same d pos have "v = ?x" by blast
  with v have unchanged: "gaussian_mutation ?hz even_rand (\<lambda>_. 10) ?x = Inr ?x" by simp
  show ?thesis
    using r2 u(1,2) c(1,2,5) d(3) first whole second unchanged by simp
qed

text \<open>
  The claim as written fails: with the bounds \<open>-1\<close> and \<open>1\<close> and
  \<^verbatim>\<open>mutation_rate = 0\<close> no element is selected, and the element 2 comes back as 1.
\<close>

theorem gaussian_mutation_rate_zero_clamps:
  "mutation_rate (clamped_hyperparams\<lparr>mutation_rate := 0\<rparr>) = 0
   \<and> torch_where_lt (map (\<lambda>_. 1 / 2) [0..<1])
        (mutation_rate (clamped_hyperparams\<lparr>mutation_rate := 0\<rparr>)) = []
   \<and> gaussian_mutation (clamped_hyperparams\<lparr>mutation_rate := 0\<rparr>) (\<lambda>_. 1 / 2) (\<lambda>_. 0)
        \<lparr>shape = [1], data = [2]\<rparr>
      = Inr \<lparr>shape = [1], data = [1]\<rparr>"
  by code_simp

end
